theory Spec2Isabelle
  imports Main "HOL-Library.Sublist"
begin

section \<open>pySOFA: reading a SOFA container into Python objects\<close>

text \<open>
  The theory embeds \<^verbatim>\<open>pysofa/sofa.py\<close>: the two field binders \<^verbatim>\<open>_add_data\<close> and
  \<^verbatim>\<open>_add_attribute\<close>, and the classes \<^verbatim>\<open>FIR\<close>, \<^verbatim>\<open>AudioObject\<close> and \<^verbatim>\<open>SOFA\<close> with
  their \<^verbatim>\<open>__init__\<close> and \<^verbatim>\<open>from_file\<close> methods.

  Python objects are attribute tables (\<^verbatim>\<open>setattr\<close> stores under a name computed at run
  time), exceptions are values of a sum type, and the PyTables library (external to the
  repository) is a parameter: a container answers each read with a value or with an
  exception, a world holds the files by path and the handles opened so far.
\<close>

subsection \<open>Values, exceptions and objects\<close>

text \<open>
  Exceptions by class. \<open>AttributeError\<close> stands for the class and its subclasses (PyTables
  derives its missing-node error from it): it is what \<^verbatim>\<open>except AttributeError\<close> catches.
  \<open>OtherError\<close> is any exception of a class outside that family that the library raises
  (an I/O error, a closed file), named by its class.
\<close>

datatype exn =
    AttributeError string
  | AssertionError
  | TypeError
  | ValueError
  | Exception string
  | OtherError string

fun is_AttributeError :: "exn \<Rightarrow> bool" where
  "is_AttributeError (AttributeError _) = True"
| "is_AttributeError _ = False"

text \<open>
  Values read from a container or stored on an object: strings, numbers, arrays (a list
  of rows, whose length is the outer extent) and objects (the table of their attributes).
\<close>

datatype pyval =
    PStr string
  | PNum int
  | PArr "pyval list"
  | PObj "string \<Rightarrow> pyval option"

type_synonym pyobj = "string \<Rightarrow> pyval option"

text \<open>Python's \<^verbatim>\<open>len\<close>: defined on strings and arrays, a \<^verbatim>\<open>TypeError\<close> on a number.\<close>

fun py_len :: "pyval \<Rightarrow> exn + nat" where
  "py_len (PStr s) = Inr (length s)"
| "py_len (PArr rows) = Inr (length rows)"
| "py_len (PNum _) = Inl TypeError"
| "py_len (PObj _) = Inl TypeError"

text \<open>
  The truth value of \<^verbatim>\<open>value == s\<close> for a string \<^verbatim>\<open>s\<close>, as an \<^verbatim>\<open>if\<close> takes it. Two strings
  are equal when their characters are; a number or an object is not equal to a string.
  An array (the library's reads return NumPy arrays) compares element by element and
  the result is an array of truth values: the truth value of an array with one element
  is that element, and for an array of any other size NumPy raises \<^verbatim>\<open>ValueError\<close>.
  \<open>equals_elements\<close> lists the results of the comparison, one for a scalar.
\<close>

fun equals_elements :: "pyval \<Rightarrow> string \<Rightarrow> bool list" where
  "equals_elements (PStr t) s = [t = s]"
| "equals_elements (PNum n) s = [False]"
| "equals_elements (PArr rows) s = concat (map (\<lambda>row. equals_elements row s) rows)"
| "equals_elements (PObj ob) s = [False]"

definition truth_of_equals :: "pyval \<Rightarrow> string \<Rightarrow> exn + bool" where
  "truth_of_equals v s = (case equals_elements v s of [b] \<Rightarrow> Inr b | _ \<Rightarrow> Inl ValueError)"

subsection \<open>The container library\<close>

datatype read_result = Returns pyval | Raises exn

text \<open>
  A container: what \<^verbatim>\<open>get_node(node).read()\<close> and \<^verbatim>\<open>get_node_attr(node, attribute)\<close>
  answer for every path and attribute name.
\<close>

record container =
  node_read :: "string \<Rightarrow> read_result"
  node_attr :: "string \<Rightarrow> string \<Rightarrow> read_result"

text \<open>An opened file object: the path it was opened from, its contents, its state.\<close>

record tblsfile =
  filename :: string
  contents :: container
  isopen :: bool

text \<open>
  The world: the files that exist, by path, and every file object created so far (a
  handle is an index into \<open>heap\<close>, so \<open>heap\<close> is also the log of the calls to
  \<^verbatim>\<open>open_file\<close>).
\<close>

record world =
  files :: "string \<Rightarrow> container option"
  heap :: "tblsfile list"

type_synonym handle = nat

definition open_file :: "string \<Rightarrow> world \<Rightarrow> world \<times> (exn + handle)" where
  "open_file path w =
     (case files w path of
        None \<Rightarrow> (w, Inl (OtherError ''IOError''))
      | Some c \<Rightarrow>
          (w\<lparr>heap := heap w @ [\<lparr>filename = path, contents = c, isopen = True\<rparr>]\<rparr>,
           Inr (length (heap w))))"

definition close :: "handle \<Rightarrow> world \<Rightarrow> world" where
  "close h w =
     (if h < length (heap w)
      then w\<lparr>heap := (heap w)[h := (heap w ! h)\<lparr>isopen := False\<rparr>]\<rparr>
      else w)"

text \<open>Reads through a handle; the library refuses a handle that is closed.\<close>

definition get_node_read :: "world \<Rightarrow> handle \<Rightarrow> string \<Rightarrow> read_result" where
  "get_node_read w h node =
     (if h < length (heap w) \<and> isopen (heap w ! h)
      then node_read (contents (heap w ! h)) node
      else Raises (OtherError ''ClosedFileError''))"

definition get_node_attr :: "world \<Rightarrow> handle \<Rightarrow> string \<Rightarrow> string \<Rightarrow> read_result" where
  "get_node_attr w h node attribute =
     (if h < length (heap w) \<and> isopen (heap w ! h)
      then node_attr (contents (heap w ! h)) node attribute
      else Raises (OtherError ''ClosedFileError''))"

subsection \<open>The \<^verbatim>\<open>sofa_file\<close> argument\<close>

text \<open>
  \<^verbatim>\<open>sofa_file\<close> is \<^verbatim>\<open>None\<close>, a string, a file object, or a value of another type (of which
  only the truth value matters).
\<close>

datatype pyarg = PyNone | PyStr string | PyFile handle | PyOther bool

fun truthy :: "pyarg \<Rightarrow> bool" where
  "truthy PyNone = False"
| "truthy (PyStr s) = (s \<noteq> [])"
| "truthy (PyFile _) = True"
| "truthy (PyOther b) = b"

fun isinstance_File :: "pyarg \<Rightarrow> bool" where
  "isinstance_File (PyFile _) = True"
| "isinstance_File _ = False"

subsection \<open>The field binders\<close>

text \<open>
  \<^verbatim>\<open>_add_data\<close> and \<^verbatim>\<open>_add_attribute\<close> (the leading underscore is dropped). The object
  is passed in and returned; the result is the exception raised, or the integer
  returned. \<^verbatim>\<open>name\<close> defaults to \<^verbatim>\<open>None\<close>; \<^verbatim>\<open>not name\<close> holds for \<^verbatim>\<open>None\<close> and for the
  empty string.
\<close>

definition add_data ::
  "world \<Rightarrow> pyobj \<Rightarrow> handle \<Rightarrow> string \<Rightarrow> bool \<Rightarrow> string option \<Rightarrow> pyobj \<times> (exn + int)" where
  "add_data w object tblsfile node required name =
     (case get_node_read w tblsfile node of
        Returns v \<Rightarrow>
          (let name' = (if name = None \<or> name = Some [] then node else the name)
           in (object(name' \<mapsto> v), Inr 0))
      | Raises e \<Rightarrow>
          if is_AttributeError e
          then (if required
                then (object, Inl (Exception (''Required Dataset '' @ node @ '' not found!'')))
                else (object, Inr 1))
          else (object, Inl e))"

definition add_attribute ::
  "world \<Rightarrow> pyobj \<Rightarrow> handle \<Rightarrow> string \<Rightarrow> string \<Rightarrow> bool \<Rightarrow> string option
     \<Rightarrow> pyobj \<times> (exn + int)" where
  "add_attribute w object tblsfile node attribute required name =
     (case get_node_attr w tblsfile node attribute of
        Returns v \<Rightarrow>
          (let name' = (if name = None \<or> name = Some [] then attribute else the name)
           in (object(name' \<mapsto> v), Inr 0))
      | Raises e \<Rightarrow>
          if is_AttributeError e
          then (if required
                then (object,
                      Inl (Exception (''Required Attribute '' @ attribute @ '' not found!'')))
                else (object, Inr 1))
          else (object, Inl e))"

subsection \<open>Control flow\<close>

text \<open>
  A \<^verbatim>\<open>for\<close> loop whose body updates the object and may raise: the first exception ends
  the loop, with the object as the iterations before it left it.
\<close>

fun for_each ::
  "'a list \<Rightarrow> ('a \<Rightarrow> pyobj \<Rightarrow> pyobj \<times> (exn + int)) \<Rightarrow> pyobj \<Rightarrow> pyobj \<times> (exn + unit)" where
  "for_each [] body object = (object, Inr ())"
| "for_each (param # params) body object =
     (case body param object of
        (object', Inl e) \<Rightarrow> (object', Inl e)
      | (object', Inr _) \<Rightarrow> for_each params body object')"

text \<open>
  Two statements in sequence: when the first raises, the second does not run, and the
  state is as the first left it.
\<close>

definition then_do ::
  "('s \<Rightarrow> 's \<times> (exn + unit)) \<Rightarrow> ('s \<Rightarrow> 's \<times> (exn + unit)) \<Rightarrow> 's \<Rightarrow> 's \<times> (exn + unit)" where
  "then_do first second s =
     (case first s of
        (s', Inl e) \<Rightarrow> (s', Inl e)
      | (s', Inr _) \<Rightarrow> second s')"

text \<open>
  The first lines of every \<^verbatim>\<open>from_file\<close>: a file object is used as it is; anything else
  must be a string (the \<^verbatim>\<open>assert\<close>), and a file is opened. \<open>path_of\<close> gives the path the
  method passes to \<^verbatim>\<open>open_file\<close>, from the string it was called with.
\<close>

definition resolve_handle ::
  "pyarg \<Rightarrow> (string \<Rightarrow> string) \<Rightarrow> world \<Rightarrow> world \<times> (exn + handle)" where
  "resolve_handle sofa_file path_of w =
     (case sofa_file of
        PyFile h \<Rightarrow> (w, Inr h)
      | PyStr s \<Rightarrow> open_file (path_of s) w
      | _ \<Rightarrow> (w, Inl AssertionError))"

text \<open>The last lines: a file opened within the method is closed.\<close>

definition release_handle :: "pyarg \<Rightarrow> handle \<Rightarrow> world \<Rightarrow> world" where
  "release_handle sofa_file tblsfile w =
     (if \<not> isinstance_File sofa_file then close tblsfile w else w)"

subsection \<open>\<^verbatim>\<open>FIR\<close>\<close>

definition FIR_datasets :: "string list" where
  "FIR_datasets = [''Data.IR'', ''Data.Delay'', ''Data.SamplingRate'']"

definition FIR_attributes :: "string list" where
  "FIR_attributes = [''Units'']"

text \<open>The two loops of \<^verbatim>\<open>FIR.from_file\<close>, between resolving the handle and releasing it.\<close>

definition FIR_read :: "world \<Rightarrow> handle \<Rightarrow> pyobj \<Rightarrow> pyobj \<times> (exn + unit)" where
  "FIR_read w tblsfile =
     then_do
       (for_each FIR_datasets
          (\<lambda>param ob. add_data w ob tblsfile (''/'' @ param) True (Some (drop 5 param))))
       (for_each FIR_attributes
          (\<lambda>param ob. add_attribute w ob tblsfile (''/'' @ ''Data.SamplingRate'') param True
                         (Some (''SamplingRate'' @ param))))"

definition FIR_from_file :: "pyobj \<Rightarrow> pyarg \<Rightarrow> world \<Rightarrow> (pyobj \<times> world) \<times> (exn + unit)" where
  "FIR_from_file self sofa_file w =
     (case resolve_handle sofa_file (\<lambda>s. ''dtf_nh2.sofa'') w of
        (w1, Inl e) \<Rightarrow> ((self, w1), Inl e)
      | (w1, Inr tblsfile) \<Rightarrow>
          (case FIR_read w1 tblsfile self of
             (self1, Inl e) \<Rightarrow> ((self1, w1), Inl e)
           | (self1, Inr _) \<Rightarrow> ((self1, release_handle sofa_file tblsfile w1), Inr ())))"

text \<open>
  A constructor call \<^verbatim>\<open>FIR(sofa_file)\<close>: the new object when \<^verbatim>\<open>__init__\<close> returns, the
  exception when it raises (the caller then holds no object).
\<close>

definition FIR_init :: "pyarg \<Rightarrow> world \<Rightarrow> world \<times> (exn + pyobj)" where
  "FIR_init sofa_file w =
     (if truthy sofa_file
      then (case FIR_from_file Map.empty sofa_file w of
              ((self, w'), Inl e) \<Rightarrow> (w', Inl e)
            | ((self, w'), Inr _) \<Rightarrow> (w', Inr self))
      else (w, Inr Map.empty))"

subsection \<open>\<^verbatim>\<open>AudioObject\<close>\<close>

definition required_datasets :: "string list" where
  "required_datasets = [''Position'']"

definition AudioObject_req_attributes :: "string list" where
  "AudioObject_req_attributes = [''Type'', ''Units'']"

definition other_datasets :: "string list" where
  "other_datasets = [''Description'', ''View'', ''Up'']"

text \<open>The three loops of \<^verbatim>\<open>AudioObject.from_file\<close>.\<close>

definition AudioObject_read ::
  "world \<Rightarrow> handle \<Rightarrow> string \<Rightarrow> pyobj \<Rightarrow> pyobj \<times> (exn + unit)" where
  "AudioObject_read w tblsfile object_string =
     then_do
       (for_each required_datasets
          (\<lambda>param ob. add_data w ob tblsfile (''/'' @ object_string @ param) True (Some param)))
    (then_do
       (for_each AudioObject_req_attributes
          (\<lambda>param ob. add_attribute w ob tblsfile (''/'' @ object_string @ ''Position'') param
                         True (Some (''Position'' @ param))))
       (for_each other_datasets
          (\<lambda>param ob. add_data w ob tblsfile (''/'' @ object_string @ param) False
                         (Some param))))"

text \<open>
  \<^verbatim>\<open>self.object_string\<close> is read from the object, which \<^verbatim>\<open>__init__\<close> sets before it
  calls \<^verbatim>\<open>from_file\<close>; reading an attribute that is not set raises, and so does
  concatenating a string with a value that is not one. No loop stores under the name
  \<^verbatim>\<open>object_string\<close>, so the model reads it once, where the first loop first does.
\<close>

definition AudioObject_from_file ::
  "pyobj \<Rightarrow> pyarg \<Rightarrow> world \<Rightarrow> (pyobj \<times> world) \<times> (exn + unit)" where
  "AudioObject_from_file self sofa_file w =
     (case resolve_handle sofa_file (\<lambda>s. ''dtf_nh2.sofa'') w of
        (w1, Inl e) \<Rightarrow> ((self, w1), Inl e)
      | (w1, Inr tblsfile) \<Rightarrow>
          (case self ''object_string'' of
             Some (PStr object_string) \<Rightarrow>
               (case AudioObject_read w1 tblsfile object_string self of
                  (self1, Inl e) \<Rightarrow> ((self1, w1), Inl e)
                | (self1, Inr _) \<Rightarrow>
                    ((self1, release_handle sofa_file tblsfile w1), Inr ()))
           | Some _ \<Rightarrow> ((self, w1), Inl TypeError)
           | None \<Rightarrow> ((self, w1), Inl (AttributeError ''object_string''))))"

definition AudioObject_init :: "string \<Rightarrow> pyarg \<Rightarrow> world \<Rightarrow> world \<times> (exn + pyobj)" where
  "AudioObject_init object_string sofa_file w =
     (let self = Map.empty(''object_string'' \<mapsto> PStr object_string) in
      if truthy sofa_file
      then (case AudioObject_from_file self sofa_file w of
              ((self', w'), Inl e) \<Rightarrow> (w', Inl e)
            | ((self', w'), Inr _) \<Rightarrow> (w', Inr self'))
      else (w, Inr self))"

text \<open>\<^verbatim>\<open>AudioObject.__len__\<close>: \<^verbatim>\<open>len(self.Position)\<close>.\<close>

definition AudioObject_len :: "pyobj \<Rightarrow> exn + nat" where
  "AudioObject_len self =
     (case self ''Position'' of
        None \<Rightarrow> Inl (AttributeError ''Position'')
      | Some position \<Rightarrow> py_len position)"

subsection \<open>\<^verbatim>\<open>SOFA\<close>\<close>

definition req_attributes :: "string list" where
  "req_attributes =
     [''Conventions'', ''Version'', ''SOFAConventions'', ''SOFAConventionsVersion'',
      ''DataType'', ''RoomType'', ''Title'', ''DateCreated'', ''DateModified'', ''APIName'',
      ''APIVersion'', ''AuthorContact'', ''Organization'', ''License'']"

definition other_attributes :: "string list" where
  "other_attributes =
     [''ApplicationName'', ''ApplicationVersion'', ''Comment'', ''History'', ''References'',
      ''Origin'']"

text \<open>
  The state of \<^verbatim>\<open>SOFA.from_file\<close> is the object and the world. A loop over root
  attributes, \<^verbatim>\<open>_add_attribute(self, tblsfile, '/', param, required=...)\<close>:
\<close>

definition root_attributes ::
  "handle \<Rightarrow> string list \<Rightarrow> bool \<Rightarrow> pyobj \<times> world \<Rightarrow> (pyobj \<times> world) \<times> (exn + unit)" where
  "root_attributes tblsfile params required s =
     (case for_each params
             (\<lambda>param ob. add_attribute (snd s) ob tblsfile ''/'' param required None) (fst s) of
        (self', r) \<Rightarrow> ((self', snd s), r))"

text \<open>
  An assignment \<^verbatim>\<open>self.x = AudioObject(role, tblsfile)\<close> or \<^verbatim>\<open>self.data = FIR(tblsfile)\<close>:
  the constructor runs, and the object it returns is stored under the attribute.
\<close>

definition assign_new ::
  "string \<Rightarrow> (world \<Rightarrow> world \<times> (exn + pyobj)) \<Rightarrow> pyobj \<times> world
     \<Rightarrow> (pyobj \<times> world) \<times> (exn + unit)" where
  "assign_new attr construct s =
     (case construct (snd s) of
        (w', Inl e) \<Rightarrow> ((fst s, w'), Inl e)
      | (w', Inr ob) \<Rightarrow> (((fst s)(attr \<mapsto> PObj ob), w'), Inr ()))"

text \<open>
  The dispatch \<^verbatim>\<open>if self.DataType == 'FIR': ... else: raise ...\<close>: the attribute is read
  from the object, compared with the string, and the \<^verbatim>\<open>if\<close> takes the truth value of the
  comparison (which raises for an array that has not exactly one element).
\<close>

definition read_data :: "handle \<Rightarrow> pyobj \<times> world \<Rightarrow> (pyobj \<times> world) \<times> (exn + unit)" where
  "read_data tblsfile s =
     (case fst s ''DataType'' of
        None \<Rightarrow> (s, Inl (AttributeError ''DataType''))
      | Some dt \<Rightarrow>
          (case truth_of_equals dt ''FIR'' of
             Inl e \<Rightarrow> (s, Inl e)
           | Inr b \<Rightarrow>
               if b
               then assign_new ''data'' (FIR_init (PyFile tblsfile)) s
               else (s, Inl (Exception ''Currently only the Datatype FIR is Implemented''))))"

text \<open>
  \<^verbatim>\<open>SOFA.from_file\<close> between resolving the handle and releasing it (the warnings filter
  it sets is not modelled: it changes no value).
\<close>

definition SOFA_read :: "handle \<Rightarrow> pyobj \<times> world \<Rightarrow> (pyobj \<times> world) \<times> (exn + unit)" where
  "SOFA_read tblsfile =
     then_do (root_attributes tblsfile req_attributes True)
    (then_do (root_attributes tblsfile other_attributes False)
    (then_do (assign_new ''listener'' (AudioObject_init ''Listener'' (PyFile tblsfile)))
    (then_do (assign_new ''source'' (AudioObject_init ''Source'' (PyFile tblsfile)))
    (then_do (assign_new ''receiver'' (AudioObject_init ''Receiver'' (PyFile tblsfile)))
    (then_do (assign_new ''emitter'' (AudioObject_init ''Emitter'' (PyFile tblsfile)))
             (read_data tblsfile))))))"

definition SOFA_from_file :: "pyobj \<Rightarrow> pyarg \<Rightarrow> world \<Rightarrow> (pyobj \<times> world) \<times> (exn + unit)" where
  "SOFA_from_file self sofa_file w =
     (case resolve_handle sofa_file (\<lambda>s. s) w of
        (w1, Inl e) \<Rightarrow> ((self, w1), Inl e)
      | (w1, Inr tblsfile) \<Rightarrow>
          (case SOFA_read tblsfile (self, w1) of
             (s, Inl e) \<Rightarrow> (s, Inl e)
           | ((self', w'), Inr _) \<Rightarrow>
               ((self', release_handle sofa_file tblsfile w'), Inr ())))"

definition SOFA_init :: "pyarg \<Rightarrow> world \<Rightarrow> world \<times> (exn + pyobj)" where
  "SOFA_init sofa_file w =
     (if truthy sofa_file
      then (case SOFA_from_file Map.empty sofa_file w of
              ((self, w'), Inl e) \<Rightarrow> (w', Inl e)
            | ((self, w'), Inr _) \<Rightarrow> (w', Inr self))
      else (w, Inr Map.empty))"

subsection \<open>Fields, descriptors and containers read by a construction\<close>

text \<open>
  The vocabulary of the properties below. A field of a container is a dataset (by node
  path) or an attribute (by node path and name). It is present when the read returns a
  value, absent when the read raises an exception of the \<open>AttributeError\<close> family (the
  library's "not found"), and broken when the read raises anything else.
\<close>

datatype field = Dataset string | Attribute string string

fun container_read :: "container \<Rightarrow> field \<Rightarrow> read_result" where
  "container_read c (Dataset node) = node_read c node"
| "container_read c (Attribute node attribute) = node_attr c node attribute"

definition present :: "container \<Rightarrow> field \<Rightarrow> bool" where
  "present c f = (case container_read c f of Returns _ \<Rightarrow> True | Raises _ \<Rightarrow> False)"

definition absent :: "container \<Rightarrow> field \<Rightarrow> bool" where
  "absent c f = (case container_read c f of Returns _ \<Rightarrow> False | Raises e \<Rightarrow> is_AttributeError e)"

definition broken :: "container \<Rightarrow> field \<Rightarrow> bool" where
  "broken c f =
     (case container_read c f of Returns _ \<Rightarrow> False | Raises e \<Rightarrow> \<not> is_AttributeError e)"

text \<open>The name a message can carry for a field, and the messages of the two binders.\<close>

fun field_name :: "field \<Rightarrow> string" where
  "field_name (Dataset node) = node"
| "field_name (Attribute node attribute) = attribute"

fun required_message :: "field \<Rightarrow> string" where
  "required_message (Dataset node) = ''Required Dataset '' @ node @ '' not found!''"
| "required_message (Attribute node attribute) =
     ''Required Attribute '' @ attribute @ '' not found!''"

text \<open>\<open>names msg f\<close>: the message contains the field's name.\<close>

definition names :: "string \<Rightarrow> field \<Rightarrow> bool" where
  "names msg f = sublist (field_name f) msg"

text \<open>
  A descriptor: the field read, the attribute of the object it is stored under, and
  whether it is required. \<open>bind_field\<close> is one bind against a container, \<open>run_plan\<close> a
  list of binds in order; the loops of the three classes are shown below to be runs of
  the descriptor lists that follow.
\<close>

type_synonym descriptor = "field \<times> string \<times> bool"

definition dest_of :: "descriptor \<Rightarrow> string" where
  "dest_of d = fst (snd d)"

definition bind_field :: "container \<Rightarrow> descriptor \<Rightarrow> pyobj \<Rightarrow> pyobj \<times> (exn + int)" where
  "bind_field c d ob =
     (case d of (f, dest, required) \<Rightarrow>
        (case container_read c f of
           Returns v \<Rightarrow> (ob(dest \<mapsto> v), Inr 0)
         | Raises e \<Rightarrow>
             if is_AttributeError e
             then (if required then (ob, Inl (Exception (required_message f)))
                   else (ob, Inr 1))
             else (ob, Inl e)))"

definition run_plan :: "container \<Rightarrow> descriptor list \<Rightarrow> pyobj \<Rightarrow> pyobj \<times> (exn + unit)" where
  "run_plan c plan = for_each plan (bind_field c)"

text \<open>The outcome of a run; it does not depend on the object the run starts from.\<close>

definition plan_result :: "container \<Rightarrow> descriptor list \<Rightarrow> exn + unit" where
  "plan_result c plan = snd (run_plan c plan Map.empty)"

text \<open>What \<^verbatim>\<open>__init__\<close> hands to the caller: the object, or the exception.\<close>

definition returned :: "pyobj \<times> (exn + unit) \<Rightarrow> exn + pyobj" where
  "returned r = (case r of (ob, Inl e) \<Rightarrow> Inl e | (ob, Inr _) \<Rightarrow> Inr ob)"

definition FIR_plan :: "descriptor list" where
  "FIR_plan =
     map (\<lambda>param. (Dataset (''/'' @ param), drop 5 param, True)) FIR_datasets @
     map (\<lambda>param. (Attribute ''/Data.SamplingRate'' param, ''SamplingRate'' @ param, True))
       FIR_attributes"

definition AudioObject_plan :: "string \<Rightarrow> descriptor list" where
  "AudioObject_plan object_string =
     map (\<lambda>param. (Dataset (''/'' @ object_string @ param), param, True)) required_datasets @
     map (\<lambda>param. (Attribute (''/'' @ object_string @ ''Position'') param,
                    ''Position'' @ param, True)) AudioObject_req_attributes @
     map (\<lambda>param. (Dataset (''/'' @ object_string @ param), param, False)) other_datasets"

definition root_plan :: "string list \<Rightarrow> bool \<Rightarrow> descriptor list" where
  "root_plan params required = map (\<lambda>param. (Attribute ''/'' param, param, required)) params"

text \<open>
  The four geometry entities of a \<^verbatim>\<open>SOFA\<close> object: the attribute each is stored under
  and its \<^verbatim>\<open>object_string\<close>.
\<close>

definition entities :: "(string \<times> string) list" where
  "entities =
     [(''listener'', ''Listener''), (''source'', ''Source''), (''receiver'', ''Receiver''),
      (''emitter'', ''Emitter'')]"

text \<open>
  An attribute path into an object: \<open>[a]\<close> is \<^verbatim>\<open>ob.a\<close>, \<open>[a, b]\<close> is \<^verbatim>\<open>ob.a.b\<close>; \<open>None\<close>
  when an attribute on the way is not set.
\<close>

fun lookup :: "pyobj \<Rightarrow> string list \<Rightarrow> pyval option" where
  "lookup ob [] = None"
| "lookup ob [a] = ob a"
| "lookup ob (a # b # rest) =
     (case ob a of Some (PObj inner) \<Rightarrow> lookup inner (b # rest) | _ \<Rightarrow> None)"

text \<open>
  Every field a \<^verbatim>\<open>SOFA\<close> construction binds, with the attribute path of its destination
  and its required flag: the root attributes, the fields of the four entities, the
  fields of the FIR payload.
\<close>

definition SOFA_bindings :: "(field \<times> string list \<times> bool) list" where
  "SOFA_bindings =
     map (\<lambda>(f, dest, required). (f, [dest], required))
       (root_plan req_attributes True @ root_plan other_attributes False) @
     concat (map (\<lambda>(attr, role).
       map (\<lambda>(f, dest, required). (f, [attr, dest], required)) (AudioObject_plan role)) entities) @
     map (\<lambda>(f, dest, required). (f, [''data'', dest], required)) FIR_plan"

text \<open>
  The descriptors a \<^verbatim>\<open>SOFA\<close> construction runs before the dispatch, in order, and the
  outcome of the whole construction as the container determines it: the first failure
  among these descriptors, then the dispatch on \<^verbatim>\<open>DataType\<close>, then the first failure
  among the descriptors of \<^verbatim>\<open>FIR\<close>.
\<close>

definition SOFA_plan :: "descriptor list" where
  "SOFA_plan =
     root_plan req_attributes True @ root_plan other_attributes False @
     concat (map (\<lambda>(attr, role). AudioObject_plan role) entities)"

definition dispatch_result :: "container \<Rightarrow> exn + unit" where
  "dispatch_result c =
     (case node_attr c ''/'' ''DataType'' of
        Raises e \<Rightarrow> Inl (AttributeError ''DataType'')
      | Returns dt \<Rightarrow>
          (case truth_of_equals dt ''FIR'' of
             Inl e \<Rightarrow> Inl e
           | Inr b \<Rightarrow>
               if b then plan_result c FIR_plan
               else Inl (Exception ''Currently only the Datatype FIR is Implemented'')))"

definition SOFA_result :: "container \<Rightarrow> exn + unit" where
  "SOFA_result c =
     (case plan_result c SOFA_plan of
        Inl e \<Rightarrow> Inl e
      | Inr _ \<Rightarrow> dispatch_result c)"

text \<open>
  \<open>passes c plan\<close>: every bind of the list succeeds on the container (each field is
  present, or optional and absent). \<open>data_type_is_FIR c\<close>: the root attribute
  \<^verbatim>\<open>DataType\<close> is present and the dispatch takes its comparison with \<^verbatim>\<open>'FIR'\<close> as true.
\<close>

definition passes :: "container \<Rightarrow> descriptor list \<Rightarrow> bool" where
  "passes c plan =
     list_all (\<lambda>(f, dest, required). present c f \<or> (\<not> required \<and> absent c f)) plan"

definition data_type_is_FIR :: "container \<Rightarrow> bool" where
  "data_type_is_FIR c =
     (case node_attr c ''/'' ''DataType'' of
        Returns dt \<Rightarrow> truth_of_equals dt ''FIR'' = Inr True
      | Raises e \<Rightarrow> False)"

definition required_fields :: "field list" where
  "required_fields = map fst (filter (\<lambda>(f, path, required). required) SOFA_bindings)"

definition optional_fields :: "field list" where
  "optional_fields = map fst (filter (\<lambda>(f, path, required). \<not> required) SOFA_bindings)"

text \<open>
  A well-formed container: every required field present, no optional field broken, and
  the root attribute \<^verbatim>\<open>DataType\<close> equal to \<^verbatim>\<open>'FIR'\<close>.
\<close>

definition well_formed :: "container \<Rightarrow> bool" where
  "well_formed c \<longleftrightarrow>
     list_all (present c) required_fields \<and>
     list_all (\<lambda>f. \<not> broken c f) optional_fields \<and>
     node_attr c ''/'' ''DataType'' = Returns (PStr ''FIR'')"

text \<open>A container with one field removed: its read raises the library's "not found".\<close>

fun remove_field :: "field \<Rightarrow> container \<Rightarrow> container" where
  "remove_field (Dataset node) c =
     c\<lparr>node_read := (node_read c)(node := Raises (AttributeError node))\<rparr>"
| "remove_field (Attribute node attribute) c =
     c\<lparr>node_attr := (node_attr c)
        (node := (node_attr c node)(attribute := Raises (AttributeError attribute)))\<rparr>"

text \<open>
  \<open>opened w h c\<close>: the handle is open on a container \<open>c\<close>. \<open>reads_container sofa_file w c\<close>:
  the argument designates \<open>c\<close>, as an open handle on it or as the path of a file that
  holds it.
\<close>

definition opened :: "world \<Rightarrow> handle \<Rightarrow> container \<Rightarrow> bool" where
  "opened w h c \<longleftrightarrow> h < length (heap w) \<and> isopen (heap w ! h) \<and> contents (heap w ! h) = c"

fun reads_container :: "pyarg \<Rightarrow> world \<Rightarrow> container \<Rightarrow> bool" where
  "reads_container (PyFile h) w c = opened w h c"
| "reads_container (PyStr path) w c = (path \<noteq> [] \<and> files w path = Some c)"
| "reads_container _ w c = False"

text \<open>
  \<open>followed_by r k\<close>: the outcome of two statements in sequence, from the outcome of each.
  \<open>typed h c s\<close>: the state once the required root attributes are bound: the handle is
  open on the container, and \<^verbatim>\<open>self.DataType\<close> is what the container holds.
\<close>

definition followed_by :: "exn + unit \<Rightarrow> exn + unit \<Rightarrow> exn + unit" where
  "followed_by r k = (case r of Inl e \<Rightarrow> Inl e | Inr u \<Rightarrow> k)"

definition typed :: "handle \<Rightarrow> container \<Rightarrow> pyobj \<times> world \<Rightarrow> bool" where
  "typed h c s \<longleftrightarrow>
     opened (snd s) h c \<and>
     (\<exists>v. node_attr c ''/'' ''DataType'' = Returns v \<and> fst s ''DataType'' = Some v)"

subsection \<open>Example containers\<close>

text \<open>
  A container with every field: three positions per entity, the attribute \<^verbatim>\<open>DataType\<close>
  equal to \<^verbatim>\<open>'FIR'\<close>. A second one holds nothing, and a third has another data type.
\<close>

definition full_container :: container where
  "full_container =
     \<lparr>node_read = (\<lambda>node. Returns (PArr [PNum 1, PNum 2, PNum 3])),
      node_attr = (\<lambda>node attribute.
         Returns (PStr (if attribute = ''DataType'' then ''FIR'' else ''x'')))\<rparr>"

definition empty_container :: container where
  "empty_container =
     \<lparr>node_read = (\<lambda>node. Raises (AttributeError node)),
      node_attr = (\<lambda>node attribute. Raises (AttributeError attribute))\<rparr>"

definition other_container :: container where
  "other_container =
     \<lparr>node_read = (\<lambda>node. Returns (PArr [PNum 1, PNum 2, PNum 3])),
      node_attr = (\<lambda>node attribute.
         Returns (PStr (if attribute = ''DataType'' then ''XYZ'' else ''x'')))\<rparr>"

definition numeric_container :: container where
  "numeric_container =
     \<lparr>node_read = (\<lambda>node. Returns (PArr [PNum 1, PNum 2, PNum 3])),
      node_attr = (\<lambda>node attribute.
         Returns (if attribute = ''DataType'' then PArr [PNum 1, PNum 2] else PStr ''x''))\<rparr>"

text \<open>
  A fourth container is damaged: the reads of two optional fields raise an error of the
  library that is not "not found"; two other optional fields are absent.
\<close>

definition damaged_container :: container where
  "damaged_container =
     \<lparr>node_read = (\<lambda>node.
         if node = ''/ListenerView'' then Raises (OtherError ''HDF5ExtError'')
         else if node = ''/ListenerUp'' then Raises (AttributeError node)
         else Returns (PArr [PNum 1, PNum 2, PNum 3])),
      node_attr = (\<lambda>node attribute.
         if attribute = ''Comment'' then Raises (OtherError ''HDF5ExtError'')
         else if attribute = ''History'' then Raises (AttributeError attribute)
         else Returns (PStr (if attribute = ''DataType'' then ''FIR'' else ''x'')))\<rparr>"

text \<open>A world with no file and one handle, \<open>0\<close>, open on a given container.\<close>

definition world_with :: "container \<Rightarrow> world" where
  "world_with c =
     \<lparr>files = Map.empty, heap = [\<lparr>filename = ''fixture.sofa'', contents = c, isopen = True\<rparr>]\<rparr>"

text \<open>The \<^verbatim>\<open>AudioObject\<close> read from the full container for the role \<^verbatim>\<open>Listener\<close>.\<close>

definition example_listener :: pyobj where
  "example_listener =
     Map.empty(''object_string'' \<mapsto> PStr ''Listener'',
       ''Position'' \<mapsto> PArr [PNum 1, PNum 2, PNum 3],
       ''PositionType'' \<mapsto> PStr ''x'',
       ''PositionUnits'' \<mapsto> PStr ''x'',
       ''Description'' \<mapsto> PArr [PNum 1, PNum 2, PNum 3],
       ''View'' \<mapsto> PArr [PNum 1, PNum 2, PNum 3],
       ''Up'' \<mapsto> PArr [PNum 1, PNum 2, PNum 3])"

definition example_world :: world where
  "example_world =
     \<lparr>files = (\<lambda>path. if path = ''my.sofa'' then Some full_container
                       else if path = ''bad.sofa'' then Some empty_container
                       else if path = ''xyz.sofa'' then Some other_container
                       else if path = ''damaged.sofa'' then Some damaged_container
                       else None),
      heap = [\<lparr>filename = ''my.sofa'', contents = full_container, isopen = True\<rparr>,
              \<lparr>filename = ''damaged.sofa'', contents = damaged_container, isopen = True\<rparr>]\<rparr>"

section \<open>Properties\<close>

subsection \<open>Sequencing and loops\<close>

lemma then_do_Inr:
  "first s = (s', Inr u) \<Longrightarrow> then_do first second s = second s'"
  by (simp add: then_do_def)

lemma then_do_Inl:
  "first s = (s', Inl e) \<Longrightarrow> then_do first second s = (s', Inl e)"
  by (simp add: then_do_def)

lemma then_do_success:
  "then_do first second s = (s2, Inr u) \<longleftrightarrow>
     (\<exists>s1. first s = (s1, Inr ()) \<and> second s1 = (s2, Inr u))"
  by (auto simp: then_do_def split: prod.splits sum.splits)

lemma snd_then_do:
  "snd (then_do first second s) =
     (case snd (first s) of Inl e \<Rightarrow> Inl e | Inr u \<Rightarrow> snd (second (fst (first s))))"
  by (simp add: then_do_def split: prod.splits sum.splits)

lemma for_each_map: "for_each (map g ps) body ob = for_each ps (\<lambda>p. body (g p)) ob"
  by (induction ps arbitrary: ob) (simp_all split: prod.splits sum.splits)

lemma for_each_append:
  "for_each (xs @ ys) body ob = then_do (for_each xs body) (for_each ys body) ob"
  by (induction xs arbitrary: ob) (simp_all add: then_do_def split: prod.splits sum.splits)

subsection \<open>Reads through an open handle\<close>

lemma opened_read: "opened w h c \<Longrightarrow> get_node_read w h node = node_read c node"
  by (simp add: opened_def get_node_read_def)

lemma opened_attr: "opened w h c \<Longrightarrow> get_node_attr w h node a = node_attr c node a"
  by (simp add: opened_def get_node_attr_def)

lemma add_data_bind:
  "opened w h c \<Longrightarrow>
   add_data w ob h node required name =
     bind_field c (Dataset node, (if name = None \<or> name = Some [] then node else the name),
       required) ob"
  by (simp add: add_data_def bind_field_def opened_read split: read_result.splits)

lemma add_attribute_bind:
  "opened w h c \<Longrightarrow>
   add_attribute w ob h node a required name =
     bind_field c (Attribute node a, (if name = None \<or> name = Some [] then a else the name),
       required) ob"
  by (simp add: add_attribute_def bind_field_def opened_attr split: read_result.splits)

subsection \<open>The loops are runs of descriptor lists\<close>

lemma FIR_read_plan:
  assumes "opened w h c"
  shows "FIR_read w h ob = run_plan c FIR_plan ob"
  by (simp add: FIR_read_def run_plan_def FIR_plan_def FIR_datasets_def FIR_attributes_def
        add_data_bind [OF assms] add_attribute_bind [OF assms] then_do_def
      split: prod.splits sum.splits)

lemma AudioObject_read_plan:
  assumes "opened w h c"
  shows "AudioObject_read w h role ob = run_plan c (AudioObject_plan role) ob"
  by (simp add: AudioObject_read_def run_plan_def AudioObject_plan_def required_datasets_def
        AudioObject_req_attributes_def other_datasets_def
        add_data_bind [OF assms] add_attribute_bind [OF assms] then_do_def
      split: prod.splits sum.splits)

lemma root_attributes_plan:
  assumes "opened w h c"
  shows "root_attributes h ps required (self, w) =
           (case run_plan c (root_plan ps required) self of (self', r) \<Rightarrow> ((self', w), r))"
  by (simp add: root_attributes_def run_plan_def root_plan_def for_each_map
        add_attribute_bind [OF assms])

subsection \<open>Runs of descriptor lists\<close>

lemma bind_field_snd: "snd (bind_field c d ob) = snd (bind_field c d ob')"
  by (simp add: bind_field_def split: prod.splits read_result.splits)

lemma run_plan_snd: "snd (run_plan c plan ob) = snd (run_plan c plan ob')"
proof (induction plan arbitrary: ob ob')
  case Nil
  show ?case by (simp add: run_plan_def)
next
  case (Cons d plan)
  obtain o1 r1 where b1: "bind_field c d ob = (o1, r1)" by (cases "bind_field c d ob")
  obtain o2 r2 where b2: "bind_field c d ob' = (o2, r2)" by (cases "bind_field c d ob'")
  from bind_field_snd [of c d ob ob'] b1 b2 have r: "r2 = r1" by simp
  show ?case
  proof (cases r1)
    case (Inl e)
    with b1 b2 r show ?thesis by (simp add: run_plan_def)
  next
    case (Inr n)
    with b1 b2 r Cons.IH [of o1 o2] show ?thesis by (simp add: run_plan_def)
  qed
qed

lemma snd_run_plan: "snd (run_plan c plan ob) = plan_result c plan"
  unfolding plan_result_def by (rule run_plan_snd)

lemma plan_result_Nil [simp]: "plan_result c [] = Inr ()"
  by (simp add: plan_result_def run_plan_def)

lemma plan_result_Cons:
  "plan_result c ((f, dest, required) # plan) =
     (case container_read c f of
        Returns v \<Rightarrow> plan_result c plan
      | Raises e \<Rightarrow>
          if is_AttributeError e
          then (if required then Inl (Exception (required_message f)) else plan_result c plan)
          else Inl e)"
proof -
  have "plan_result c ((f, dest, required) # plan) =
          snd (run_plan c ((f, dest, required) # plan) Map.empty)"
    by (simp add: plan_result_def)
  also have "\<dots> = (case bind_field c (f, dest, required) Map.empty of
                      (ob, Inl e) \<Rightarrow> Inl e
                    | (ob, Inr n) \<Rightarrow> snd (run_plan c plan ob))"
    by (simp add: run_plan_def split: prod.splits sum.splits)
  also have "\<dots> = (case bind_field c (f, dest, required) Map.empty of
                      (ob, Inl e) \<Rightarrow> Inl e
                    | (ob, Inr n) \<Rightarrow> plan_result c plan)"
    by (simp add: snd_run_plan split: prod.splits sum.splits)
  finally show ?thesis
    by (simp add: bind_field_def split: read_result.splits)
qed

lemma plan_result_append:
  "plan_result c (p @ q) =
     (case plan_result c p of Inl e \<Rightarrow> Inl e | Inr u \<Rightarrow> plan_result c q)"
proof (induction p)
  case Nil
  show ?case by simp
next
  case (Cons d p)
  obtain f dest required where d: "d = (f, dest, required)" by (cases d)
  show ?case
    unfolding d append_Cons plan_result_Cons using Cons.IH
    by (simp split: read_result.splits)
qed

text \<open>A run passes exactly when each field is present, or optional and absent.\<close>

lemma plan_passes_iff:
  "plan_result c plan = Inr () \<longleftrightarrow>
     list_all (\<lambda>(f, dest, required). present c f \<or> (\<not> required \<and> absent c f)) plan"
proof (induction plan)
  case Nil
  show ?case by simp
next
  case (Cons d plan)
  obtain f dest required where d: "d = (f, dest, required)" by (cases d)
  show ?case
    unfolding d plan_result_Cons using Cons.IH
    by (simp add: present_def absent_def split: read_result.splits)
qed

text \<open>
  A run fails on the first field it cannot bind: when that is a required field that is
  absent, the exception carries the message for that field.
\<close>

lemma plan_fails_naming:
  assumes "(f, dest, True) \<in> set plan" and "absent c f"
    and "\<forall>(g, d, r) \<in> set plan. g \<noteq> f \<longrightarrow> present c g \<or> (\<not> r \<and> absent c g)"
  shows "plan_result c plan = Inl (Exception (required_message f))"
  using assms
proof (induction plan)
  case Nil
  then show ?case by simp
next
  case (Cons d plan)
  obtain g dest' r where d: "d = (g, dest', r)" by (cases d)
  show ?case
  proof (cases "g = f")
    case True
    show ?thesis
    proof (cases r)
      case True
      with \<open>g = f\<close> Cons.prems(2) show ?thesis
        unfolding d plan_result_Cons by (simp add: absent_def split: read_result.splits)
    next
      case False
      with \<open>g = f\<close> d Cons.prems(1) have "(f, dest, True) \<in> set plan" by auto
      moreover from Cons.prems(3)
      have "\<forall>(g, d, r) \<in> set plan. g \<noteq> f \<longrightarrow> present c g \<or> (\<not> r \<and> absent c g)" by simp
      ultimately have "plan_result c plan = Inl (Exception (required_message f))"
        using Cons.IH Cons.prems(2) by blast
      with False \<open>g = f\<close> Cons.prems(2) show ?thesis
        unfolding d plan_result_Cons by (simp add: absent_def split: read_result.splits)
    qed
  next
    case False
    with d Cons.prems(1) have "(f, dest, True) \<in> set plan" by auto
    moreover from Cons.prems(3)
    have "\<forall>(g, d, r) \<in> set plan. g \<noteq> f \<longrightarrow> present c g \<or> (\<not> r \<and> absent c g)" by simp
    ultimately have ih: "plan_result c plan = Inl (Exception (required_message f))"
      using Cons.IH Cons.prems(2) by blast
    from False d Cons.prems(3) have "present c g \<or> (\<not> r \<and> absent c g)" by simp
    with ih show ?thesis
      unfolding d plan_result_Cons
      by (auto simp: present_def absent_def split: read_result.splits)
  qed
qed

text \<open>What a run leaves on the object.\<close>

lemma bind_field_frame: "x \<noteq> dest_of d \<Longrightarrow> fst (bind_field c d ob) x = ob x"
  by (cases d) (simp add: bind_field_def dest_of_def split: read_result.splits)

lemma run_plan_frame:
  "x \<notin> dest_of ` set plan \<Longrightarrow> fst (run_plan c plan ob) x = ob x"
proof (induction plan arbitrary: ob)
  case Nil
  show ?case by (simp add: run_plan_def)
next
  case (Cons d plan)
  obtain o1 r1 where b: "bind_field c d ob = (o1, r1)" by (cases "bind_field c d ob")
  from Cons.prems have x: "x \<noteq> dest_of d" and xs: "x \<notin> dest_of ` set plan" by auto
  from bind_field_frame [OF x, of c ob] b have o1: "o1 x = ob x" by simp
  show ?case
  proof (cases r1)
    case (Inl e)
    with b o1 show ?thesis by (simp add: run_plan_def)
  next
    case (Inr n)
    with b have "run_plan c (d # plan) ob = run_plan c plan o1" by (simp add: run_plan_def)
    with Cons.IH [OF xs, of o1] o1 show ?thesis by simp
  qed
qed

lemma run_plan_values:
  assumes "run_plan c plan ob = (ob', Inr u)" and "distinct (map dest_of plan)"
    and "(f, dest, required) \<in> set plan"
  shows "case container_read c f of
           Returns v \<Rightarrow> ob' dest = Some v
         | Raises e \<Rightarrow> ob' dest = ob dest"
  using assms
proof (induction plan arbitrary: ob)
  case Nil
  then show ?case by simp
next
  case (Cons d plan)
  obtain o1 r1 where b: "bind_field c d ob = (o1, r1)" by (cases "bind_field c d ob")
  with Cons.prems(1) obtain n where r1: "r1 = Inr n"
    by (cases r1) (simp_all add: run_plan_def)
  with b Cons.prems(1) have run: "run_plan c plan o1 = (ob', Inr u)" by (simp add: run_plan_def)
  from Cons.prems(2) have dist: "distinct (map dest_of plan)"
    and fresh: "dest_of d \<notin> dest_of ` set plan" by auto
  show ?case
  proof (cases "d = (f, dest, required)")
    case True
    from run_plan_frame [of dest plan c o1] fresh True run have "ob' dest = o1 dest"
      by (simp add: dest_of_def)
    with b True r1 show ?thesis
      by (auto simp: bind_field_def split: read_result.splits if_splits)
  next
    case False
    with Cons.prems(3) have mem: "(f, dest, required) \<in> set plan" by simp
    from imageI [OF mem, of dest_of] have "dest \<in> dest_of ` set plan"
      by (simp add: dest_of_def)
    with fresh have "dest \<noteq> dest_of d" by blast
    from bind_field_frame [OF this, of c ob] b have "o1 dest = ob dest" by simp
    with Cons.IH [OF run dist mem] show ?thesis by (simp split: read_result.splits)
  qed
qed

subsection \<open>A handle of the caller is left as it is\<close>

lemma resolve_handle_File [simp]: "resolve_handle (PyFile h) path_of w = (w, Inr h)"
  by (simp add: resolve_handle_def)

lemma release_handle_File [simp]: "release_handle (PyFile h) t w = w"
  by (simp add: release_handle_def)

lemma FIR_from_file_File_world: "snd (fst (FIR_from_file self (PyFile h) w)) = w"
  by (simp add: FIR_from_file_def split: prod.splits sum.splits)

lemma FIR_init_File_world: "fst (FIR_init (PyFile h) w) = w"
  using FIR_from_file_File_world [of Map.empty h w]
  by (auto simp: FIR_init_def split: prod.splits sum.splits)

lemma AudioObject_from_file_File_world:
  "snd (fst (AudioObject_from_file self (PyFile h) w)) = w"
  by (simp add: AudioObject_from_file_def split: prod.splits sum.splits option.splits pyval.splits)

lemma AudioObject_init_File_world: "fst (AudioObject_init role (PyFile h) w) = w"
  using AudioObject_from_file_File_world [of "Map.empty(''object_string'' \<mapsto> PStr role)" h w]
  by (auto simp: AudioObject_init_def split: prod.splits sum.splits)

lemma assign_new_world:
  "(\<And>w. fst (construct w) = w) \<Longrightarrow> snd (fst (assign_new attr construct s)) = snd s"
proof -
  assume h: "\<And>w. fst (construct w) = w"
  obtain w' r where c: "construct (snd s) = (w', r)" by (cases "construct (snd s)")
  with h [of "snd s"] have "w' = snd s" by simp
  with c show ?thesis by (cases r) (simp_all add: assign_new_def)
qed

lemma root_attributes_world: "snd (fst (root_attributes h ps req s)) = snd s"
  by (simp add: root_attributes_def split: prod.splits)

lemma then_do_world:
  "(\<And>s. snd (fst (first s)) = snd s) \<Longrightarrow> (\<And>s. snd (fst (second s)) = snd s)
     \<Longrightarrow> snd (fst (then_do first second s)) = snd s"
proof -
  assume f: "\<And>s. snd (fst (first s)) = snd s" and g: "\<And>s. snd (fst (second s)) = snd s"
  obtain s1 r where c: "first s = (s1, r)" by (cases "first s")
  with f [of s] have s1: "snd s1 = snd s" by simp
  show ?thesis
  proof (cases r)
    case (Inl e)
    with c s1 show ?thesis by (simp add: then_do_def)
  next
    case (Inr u)
    with c have "then_do first second s = second s1" by (simp add: then_do_def)
    with g [of s1] s1 show ?thesis by simp
  qed
qed

lemma read_data_world: "snd (fst (read_data h s)) = snd s"
  by (simp add: read_data_def assign_new_world FIR_init_File_world
      split: option.splits sum.splits)

lemma SOFA_read_world: "snd (fst (SOFA_read h s)) = snd s"
  unfolding SOFA_read_def
  by (intro then_do_world root_attributes_world assign_new_world AudioObject_init_File_world
        read_data_world)

lemma SOFA_from_file_File_world: "snd (fst (SOFA_from_file self (PyFile h) w)) = w"
  using SOFA_read_world [of h "(self, w)"]
  by (auto simp: SOFA_from_file_def split: prod.splits sum.splits)

lemma SOFA_init_File_world: "fst (SOFA_init (PyFile h) w) = w"
  using SOFA_from_file_File_world [of Map.empty h w]
  by (auto simp: SOFA_init_def split: prod.splits sum.splits)

text \<open>
  C7. A construction of \<^verbatim>\<open>SOFA\<close>, \<^verbatim>\<open>AudioObject\<close> or \<^verbatim>\<open>FIR\<close> that is given a file object
  of the caller returns the world it was called in, whether it returns an object or
  raises: no file is opened and none is closed, so the caller's handle is in the state
  it was in. The same holds for the three \<^verbatim>\<open>from_file\<close> methods called on any object.
\<close>

theorem caller_handle_untouched:
  "fst (SOFA_init (PyFile h) w) = w \<and>
   fst (AudioObject_init role (PyFile h) w) = w \<and>
   fst (FIR_init (PyFile h) w) = w \<and>
   snd (fst (SOFA_from_file self (PyFile h) w)) = w \<and>
   snd (fst (AudioObject_from_file self (PyFile h) w)) = w \<and>
   snd (fst (FIR_from_file self (PyFile h) w)) = w"
  by (simp add: SOFA_init_File_world AudioObject_init_File_world FIR_init_File_world
        SOFA_from_file_File_world AudioObject_from_file_File_world FIR_from_file_File_world)

subsection \<open>A falsy argument\<close>

text \<open>
  C10. With a falsy \<^verbatim>\<open>sofa_file\<close> (\<^verbatim>\<open>None\<close>, the empty string, any other falsy value)
  the three constructors raise nothing and return, in the world they were called in
  and whatever that world holds, an object on which no field of a container is bound:
  the empty object for \<^verbatim>\<open>SOFA\<close> and \<^verbatim>\<open>FIR\<close>, the object that carries only the
  constructor's own argument \<^verbatim>\<open>object_string\<close> for \<^verbatim>\<open>AudioObject\<close>.
\<close>

theorem falsy_argument_binds_nothing:
  "\<not> truthy sofa_file \<Longrightarrow>
   SOFA_init sofa_file w = (w, Inr Map.empty) \<and>
   FIR_init sofa_file w = (w, Inr Map.empty) \<and>
   AudioObject_init role sofa_file w = (w, Inr (Map.empty(''object_string'' \<mapsto> PStr role)))"
  by (simp add: SOFA_init_def FIR_init_def AudioObject_init_def)

theorem falsy_argument_binds_nothing_witness:
  "\<not> truthy (PyStr []) \<and>
   SOFA_init (PyStr []) example_world = (example_world, Inr Map.empty) \<and>
   FIR_init (PyStr []) example_world = (example_world, Inr Map.empty) \<and>
   AudioObject_init ''Listener'' (PyStr []) example_world =
     (example_world, Inr (Map.empty(''object_string'' \<mapsto> PStr ''Listener'')))"
  using falsy_argument_binds_nothing [of "PyStr []" example_world "''Listener''"] by simp

subsection \<open>The constructors on an open handle\<close>

lemma FIR_init_opened:
  assumes "opened w h c"
  shows "FIR_init (PyFile h) w = (w, returned (run_plan c FIR_plan Map.empty))"
  by (simp add: FIR_init_def FIR_from_file_def FIR_read_plan [OF assms] returned_def
      split: prod.splits sum.splits)

lemma AudioObject_init_opened:
  assumes "opened w h c"
  shows "AudioObject_init role (PyFile h) w =
           (w, returned (run_plan c (AudioObject_plan role)
                           (Map.empty(''object_string'' \<mapsto> PStr role))))"
  by (simp add: AudioObject_init_def AudioObject_from_file_def
        AudioObject_read_plan [OF assms] returned_def
      split: prod.splits sum.splits)

lemma snd_returned:
  "(case returned r of Inl e \<Rightarrow> Inl e | Inr ob \<Rightarrow> Inr ()) = snd r"
  by (cases r) (simp add: returned_def split: sum.splits)

lemma snd_assign_new:
  "snd (assign_new attr construct s) =
     (case snd (construct (snd s)) of Inl e \<Rightarrow> Inl e | Inr ob \<Rightarrow> Inr ())"
  by (simp add: assign_new_def split: prod.splits sum.splits)

lemma assign_new_frame:
  "x \<noteq> attr \<Longrightarrow> fst (fst (assign_new attr construct s)) x = fst s x"
  by (simp add: assign_new_def split: prod.splits sum.splits)

text \<open>The outcome of each statement of \<^verbatim>\<open>SOFA.from_file\<close>, from the container.\<close>

lemma snd_root_attributes:
  assumes "opened (snd s) h c"
  shows "snd (root_attributes h ps required s) = plan_result c (root_plan ps required)"
proof -
  obtain self w where s: "s = (self, w)" by (cases s)
  with assms have "opened w h c" by simp
  from root_attributes_plan [OF this, of ps required self]
    snd_run_plan [of c "root_plan ps required" self]
  show ?thesis unfolding s by (simp split: prod.splits)
qed

lemma snd_assign_AudioObject:
  assumes "opened (snd s) h c"
  shows "snd (assign_new attr (AudioObject_init role (PyFile h)) s) =
           plan_result c (AudioObject_plan role)"
  unfolding snd_assign_new AudioObject_init_opened [OF assms] snd_conv snd_returned
  by (rule snd_run_plan)

lemma snd_read_data:
  assumes "opened (snd s) h c" and "node_attr c ''/'' ''DataType'' = Returns v"
    and "fst s ''DataType'' = Some v"
  shows "snd (read_data h s) = dispatch_result c"
proof -
  have "snd (assign_new ''data'' (FIR_init (PyFile h)) s) = plan_result c FIR_plan"
    unfolding snd_assign_new FIR_init_opened [OF assms(1)] snd_conv snd_returned
    by (rule snd_run_plan)
  with assms(2,3) show ?thesis
    by (simp add: read_data_def dispatch_result_def split: sum.splits)
qed

text \<open>The attribute \<^verbatim>\<open>DataType\<close> on the object, after each statement.\<close>

lemma distinct_req_attributes: "distinct req_attributes"
  by (simp add: req_attributes_def)

lemma root_plan_dests [simp]: "map dest_of (root_plan ps required) = ps"
  by (induction ps) (simp_all add: root_plan_def dest_of_def)

lemma root_plan_dests_image [simp]: "dest_of ` set (root_plan ps required) = set ps"
  using root_plan_dests [of ps required] by (metis set_map)

lemma DataType_bound:
  assumes "opened (snd s) h c"
    and "snd (root_attributes h req_attributes True s) = Inr u"
  shows "\<exists>v. node_attr c ''/'' ''DataType'' = Returns v \<and>
             fst (fst (root_attributes h req_attributes True s)) ''DataType'' = Some v"
proof -
  obtain self w where s: "s = (self, w)" by (cases s)
  with assms have op: "opened w h c" by simp
  obtain self' r where run: "run_plan c (root_plan req_attributes True) self = (self', r)"
    by (cases "run_plan c (root_plan req_attributes True) self")
  with root_attributes_plan [OF op, of req_attributes True self]
  have eq: "root_attributes h req_attributes True s = ((self', w), r)" by (simp add: s)
  with assms(2) have r: "r = Inr u" by simp
  have mem: "(Attribute ''/'' ''DataType'', ''DataType'', True) \<in> set (root_plan req_attributes True)"
    by (simp add: root_plan_def req_attributes_def)
  have "distinct (map dest_of (root_plan req_attributes True))"
    by (simp add: distinct_req_attributes)
  from run_plan_values [OF run [unfolded r] this mem]
  have "case node_attr c ''/'' ''DataType'' of
          Returns v \<Rightarrow> self' ''DataType'' = Some v
        | Raises e \<Rightarrow> self' ''DataType'' = self ''DataType''" by simp
  moreover
  from snd_run_plan [of c "root_plan req_attributes True" self] run r
  have "plan_result c (root_plan req_attributes True) = Inr ()" by simp
  then have "list_all (\<lambda>(f, dest, required). present c f \<or> (\<not> required \<and> absent c f))
               (root_plan req_attributes True)"
    by (simp add: plan_passes_iff)
  with mem have "present c (Attribute ''/'' ''DataType'')"
    unfolding list_all_iff by fastforce
  ultimately show ?thesis
    unfolding eq by (auto simp: present_def split: read_result.splits)
qed

lemma DataType_kept_by_other_attributes:
  assumes "opened (snd s) h c"
  shows "fst (fst (root_attributes h other_attributes False s)) ''DataType'' = fst s ''DataType''"
proof -
  obtain self w where s: "s = (self, w)" by (cases s)
  with assms have op: "opened w h c" by simp
  have "''DataType'' \<notin> dest_of ` set (root_plan other_attributes False)"
    by (simp add: other_attributes_def)
  from run_plan_frame [OF this, of c self]
  show ?thesis
    unfolding s root_attributes_plan [OF op] by (auto split: prod.splits)
qed

subsection \<open>The outcome of \<^verbatim>\<open>SOFA.from_file\<close>\<close>

lemma then_do_step:
  assumes "\<And>s. P s \<Longrightarrow> snd (m1 s) = r1"
    and "\<And>s u. P s \<Longrightarrow> r1 = Inr u \<Longrightarrow> Q (fst (m1 s))"
    and "\<And>s. Q s \<Longrightarrow> snd (m2 s) = r2"
    and "P s"
  shows "snd (then_do m1 m2 s) = followed_by r1 r2"
proof (cases r1)
  case (Inl e)
  with assms(1) [OF assms(4)] show ?thesis by (simp add: snd_then_do followed_by_def)
next
  case (Inr u)
  from assms(2) [OF assms(4) Inr] have "Q (fst (m1 s))" .
  from assms(3) [OF this] Inr assms(1) [OF assms(4)] show ?thesis by (simp add: snd_then_do followed_by_def)
qed

lemma typed_after_req_attributes:
  assumes "opened (snd s) h c"
    and "plan_result c (root_plan req_attributes True) = Inr u"
  shows "typed h c (fst (root_attributes h req_attributes True s))"
proof -
  from assms snd_root_attributes [OF assms(1), of req_attributes True]
  have "snd (root_attributes h req_attributes True s) = Inr u" by simp
  from DataType_bound [OF assms(1) this] root_attributes_world [of h req_attributes True s]
    assms(1)
  show ?thesis by (simp add: typed_def)
qed

lemma typed_after_other_attributes:
  assumes "typed h c s"
  shows "typed h c (fst (root_attributes h other_attributes False s))"
proof -
  from assms have op: "opened (snd s) h c" by (simp add: typed_def)
  from DataType_kept_by_other_attributes [OF op] root_attributes_world [of h other_attributes False s]
    assms
  show ?thesis by (simp add: typed_def)
qed

lemma typed_after_assign:
  assumes "typed h c s" and "attr \<noteq> ''DataType''"
  shows "typed h c (fst (assign_new attr (AudioObject_init role (PyFile h)) s))"
proof -
  have "snd (fst (assign_new attr (AudioObject_init role (PyFile h)) s)) = snd s"
    by (rule assign_new_world) (rule AudioObject_init_File_world)
  moreover from assms(2)
  have "fst (fst (assign_new attr (AudioObject_init role (PyFile h)) s)) ''DataType'' =
          fst s ''DataType''"
    by (intro assign_new_frame) simp
  ultimately show ?thesis using assms(1) by (simp add: typed_def)
qed

lemma snd_read_data_typed:
  assumes "typed h c s"
  shows "snd (read_data h s) = dispatch_result c"
proof -
  from assms obtain v where "opened (snd s) h c"
    and "node_attr c ''/'' ''DataType'' = Returns v" and "fst s ''DataType'' = Some v"
    by (auto simp: typed_def)
  then show ?thesis by (rule snd_read_data)
qed

lemma typed_opened: "typed h c s \<Longrightarrow> opened (snd s) h c"
  by (simp add: typed_def)

lemma snd_SOFA_read:
  assumes "opened (snd s) h c"
  shows "snd (SOFA_read h s) = SOFA_result c"
proof -
  let ?tail = "dispatch_result c"
  let ?req = "plan_result c (root_plan req_attributes True)"
  let ?other = "plan_result c (root_plan other_attributes False)"
  let ?L = "plan_result c (AudioObject_plan ''Listener'')"
  let ?S = "plan_result c (AudioObject_plan ''Source'')"
  let ?R = "plan_result c (AudioObject_plan ''Receiver'')"
  let ?E = "plan_result c (AudioObject_plan ''Emitter'')"
  let ?emitter = "then_do (assign_new ''emitter'' (AudioObject_init ''Emitter'' (PyFile h)))
                    (read_data h)"
  let ?receiver = "then_do (assign_new ''receiver'' (AudioObject_init ''Receiver'' (PyFile h)))
                     ?emitter"
  let ?source = "then_do (assign_new ''source'' (AudioObject_init ''Source'' (PyFile h)))
                   ?receiver"
  let ?listener = "then_do (assign_new ''listener'' (AudioObject_init ''Listener'' (PyFile h)))
                     ?source"
  let ?others = "then_do (root_attributes h other_attributes False) ?listener"
  have e: "\<And>s. typed h c s \<Longrightarrow> snd (?emitter s) = followed_by ?E ?tail"
    by (rule then_do_step [where P = "typed h c" and Q = "typed h c"])
      (simp_all add: snd_assign_AudioObject typed_opened typed_after_assign snd_read_data_typed)
  have r: "\<And>s. typed h c s \<Longrightarrow> snd (?receiver s) = followed_by ?R (followed_by ?E ?tail)"
    by (rule then_do_step [where P = "typed h c" and Q = "typed h c"])
      (simp_all add: snd_assign_AudioObject typed_opened typed_after_assign e)
  have so: "\<And>s. typed h c s \<Longrightarrow>
      snd (?source s) = followed_by ?S (followed_by ?R (followed_by ?E ?tail))"
    by (rule then_do_step [where P = "typed h c" and Q = "typed h c"])
      (simp_all add: snd_assign_AudioObject typed_opened typed_after_assign r)
  have l: "\<And>s. typed h c s \<Longrightarrow>
      snd (?listener s) =
        followed_by ?L (followed_by ?S (followed_by ?R (followed_by ?E ?tail)))"
    by (rule then_do_step [where P = "typed h c" and Q = "typed h c"])
      (simp_all add: snd_assign_AudioObject typed_opened typed_after_assign so)
  have ot: "\<And>s. typed h c s \<Longrightarrow>
      snd (?others s) =
        followed_by ?other
          (followed_by ?L (followed_by ?S (followed_by ?R (followed_by ?E ?tail))))"
    by (rule then_do_step [where P = "typed h c" and Q = "typed h c"])
      (simp_all add: snd_root_attributes typed_opened typed_after_other_attributes l)
  have "snd (SOFA_read h s) =
      followed_by ?req (followed_by ?other
        (followed_by ?L (followed_by ?S (followed_by ?R (followed_by ?E ?tail)))))"
    unfolding SOFA_read_def
    by (rule then_do_step [where P = "\<lambda>s. opened (snd s) h c" and Q = "typed h c"])
      (simp_all add: snd_root_attributes typed_after_req_attributes ot assms)
  also have "\<dots> = SOFA_result c"
    by (simp add: SOFA_result_def SOFA_plan_def entities_def plan_result_append followed_by_def
        split: sum.splits)
  finally show ?thesis .
qed

subsection \<open>Opening and closing\<close>

lemma open_file_Some:
  "files w path = Some c \<Longrightarrow>
   open_file path w =
     (w\<lparr>heap := heap w @ [\<lparr>filename = path, contents = c, isopen = True\<rparr>]\<rparr>,
      Inr (length (heap w)))"
  by (simp add: open_file_def)

lemma open_file_None:
  "files w path = None \<Longrightarrow> open_file path w = (w, Inl (OtherError ''IOError''))"
  by (simp add: open_file_def)

lemma opened_after_open:
  "opened (w\<lparr>heap := heap w @ [\<lparr>filename = path, contents = c, isopen = True\<rparr>]\<rparr>)
     (length (heap w)) c"
  by (simp add: opened_def)

lemma close_after_open:
  "close (length (heap w)) (w\<lparr>heap := heap w @ [t]\<rparr>) =
     w\<lparr>heap := heap w @ [t\<lparr>isopen := False\<rparr>]\<rparr>"
  by (simp add: close_def)

text \<open>The constructor \<^verbatim>\<open>SOFA(sofa_file)\<close> in terms of the reads of \<^verbatim>\<open>from_file\<close>.\<close>

lemma SOFA_init_File:
  "SOFA_init (PyFile h) w =
     (w, returned (fst (fst (SOFA_read h (Map.empty, w))), snd (SOFA_read h (Map.empty, w))))"
proof -
  obtain self w' r where x: "SOFA_read h (Map.empty, w) = ((self, w'), r)"
    by (cases "SOFA_read h (Map.empty, w)") auto
  with SOFA_read_world [of h "(Map.empty, w)"] have "w' = w" by simp
  with x show ?thesis
    by (cases r) (simp_all add: SOFA_init_def SOFA_from_file_def returned_def)
qed

lemma SOFA_init_path:
  assumes "path \<noteq> []" and "files w path = Some c"
  shows "SOFA_init (PyStr path) w =
     (let w1 = w\<lparr>heap := heap w @ [\<lparr>filename = path, contents = c, isopen = True\<rparr>]\<rparr>;
          x = SOFA_read (length (heap w)) (Map.empty, w1)
      in (w\<lparr>heap := heap w @ [\<lparr>filename = path, contents = c, isopen = isl (snd x)\<rparr>]\<rparr>,
          returned (fst (fst x), snd x)))"
proof -
  let ?w1 = "w\<lparr>heap := heap w @ [\<lparr>filename = path, contents = c, isopen = True\<rparr>]\<rparr>"
  obtain self w' r where x: "SOFA_read (length (heap w)) (Map.empty, ?w1) = ((self, w'), r)"
    by (cases "SOFA_read (length (heap w)) (Map.empty, ?w1)") auto
  with SOFA_read_world [of "length (heap w)" "(Map.empty, ?w1)"] have w': "w' = ?w1" by simp
  show ?thesis
  proof (cases r)
    case (Inl e)
    with x w' assms show ?thesis
      by (simp add: SOFA_init_def SOFA_from_file_def resolve_handle_def open_file_Some
          returned_def Let_def)
  next
    case (Inr u)
    with x w' assms show ?thesis
      by (simp add: SOFA_init_def SOFA_from_file_def resolve_handle_def open_file_Some
          returned_def Let_def release_handle_def close_after_open)
  qed
qed

lemma SOFA_init_no_file:
  "path \<noteq> [] \<Longrightarrow> files w path = None \<Longrightarrow>
   SOFA_init (PyStr path) w = (w, Inl (OtherError ''IOError''))"
  by (simp add: SOFA_init_def SOFA_from_file_def resolve_handle_def open_file_None)

text \<open>
  A construction that reads a container: its object comes from a run of
  \<^verbatim>\<open>SOFA.from_file\<close> on a handle open on that container, and its outcome is the one
  the container determines.
\<close>

lemma SOFA_init_reads:
  assumes "reads_container sofa_file w c"
  shows "\<exists>h w1. opened w1 h c \<and>
           snd (SOFA_init sofa_file w) =
             returned (fst (fst (SOFA_read h (Map.empty, w1))),
                       snd (SOFA_read h (Map.empty, w1)))"
proof (cases sofa_file)
  case (PyFile h)
  with assms have "opened w h c" by simp
  with PyFile show ?thesis by (auto simp: SOFA_init_File)
next
  case (PyStr path)
  with assms have p: "path \<noteq> []" "files w path = Some c" by simp_all
  from opened_after_open [of w path c] SOFA_init_path [OF p] PyStr
  show ?thesis by (auto simp: Let_def)
next
  case PyNone
  with assms show ?thesis by simp
next
  case (PyOther b)
  with assms show ?thesis by simp
qed

lemma SOFA_init_outcome:
  assumes "reads_container sofa_file w c"
  shows "(case snd (SOFA_init sofa_file w) of Inl e \<Rightarrow> Inl e | Inr ob \<Rightarrow> Inr ()) =
           SOFA_result c"
proof -
  from SOFA_init_reads [OF assms] obtain h w1 where op: "opened w1 h c"
    and eq: "snd (SOFA_init sofa_file w) =
               returned (fst (fst (SOFA_read h (Map.empty, w1))),
                         snd (SOFA_read h (Map.empty, w1)))" by blast
  from op have "snd (SOFA_read h (Map.empty, w1)) = SOFA_result c"
    by (intro snd_SOFA_read) simp
  with eq show ?thesis by (simp add: returned_def split: sum.splits)
qed

lemma SOFA_init_fails_iff:
  assumes "reads_container sofa_file w c"
  shows "snd (SOFA_init sofa_file w) = Inl e \<longleftrightarrow> SOFA_result c = Inl e"
  using SOFA_init_outcome [OF assms] by (auto split: sum.splits)

lemma SOFA_init_succeeds_iff:
  assumes "reads_container sofa_file w c"
  shows "(\<exists>ob. snd (SOFA_init sofa_file w) = Inr ob) \<longleftrightarrow> SOFA_result c = Inr ()"
  using SOFA_init_outcome [OF assms] by (auto split: sum.splits)

subsection \<open>The descriptor lists, written out\<close>

lemma SOFA_plan_eq:
  "SOFA_plan =
     [(Attribute ''/'' ''Conventions'', ''Conventions'', True),
      (Attribute ''/'' ''Version'', ''Version'', True),
      (Attribute ''/'' ''SOFAConventions'', ''SOFAConventions'', True),
      (Attribute ''/'' ''SOFAConventionsVersion'', ''SOFAConventionsVersion'', True),
      (Attribute ''/'' ''DataType'', ''DataType'', True),
      (Attribute ''/'' ''RoomType'', ''RoomType'', True),
      (Attribute ''/'' ''Title'', ''Title'', True),
      (Attribute ''/'' ''DateCreated'', ''DateCreated'', True),
      (Attribute ''/'' ''DateModified'', ''DateModified'', True),
      (Attribute ''/'' ''APIName'', ''APIName'', True),
      (Attribute ''/'' ''APIVersion'', ''APIVersion'', True),
      (Attribute ''/'' ''AuthorContact'', ''AuthorContact'', True),
      (Attribute ''/'' ''Organization'', ''Organization'', True),
      (Attribute ''/'' ''License'', ''License'', True),
      (Attribute ''/'' ''ApplicationName'', ''ApplicationName'', False),
      (Attribute ''/'' ''ApplicationVersion'', ''ApplicationVersion'', False),
      (Attribute ''/'' ''Comment'', ''Comment'', False),
      (Attribute ''/'' ''History'', ''History'', False),
      (Attribute ''/'' ''References'', ''References'', False),
      (Attribute ''/'' ''Origin'', ''Origin'', False),
      (Dataset ''/ListenerPosition'', ''Position'', True),
      (Attribute ''/ListenerPosition'' ''Type'', ''PositionType'', True),
      (Attribute ''/ListenerPosition'' ''Units'', ''PositionUnits'', True),
      (Dataset ''/ListenerDescription'', ''Description'', False),
      (Dataset ''/ListenerView'', ''View'', False),
      (Dataset ''/ListenerUp'', ''Up'', False),
      (Dataset ''/SourcePosition'', ''Position'', True),
      (Attribute ''/SourcePosition'' ''Type'', ''PositionType'', True),
      (Attribute ''/SourcePosition'' ''Units'', ''PositionUnits'', True),
      (Dataset ''/SourceDescription'', ''Description'', False),
      (Dataset ''/SourceView'', ''View'', False),
      (Dataset ''/SourceUp'', ''Up'', False),
      (Dataset ''/ReceiverPosition'', ''Position'', True),
      (Attribute ''/ReceiverPosition'' ''Type'', ''PositionType'', True),
      (Attribute ''/ReceiverPosition'' ''Units'', ''PositionUnits'', True),
      (Dataset ''/ReceiverDescription'', ''Description'', False),
      (Dataset ''/ReceiverView'', ''View'', False),
      (Dataset ''/ReceiverUp'', ''Up'', False),
      (Dataset ''/EmitterPosition'', ''Position'', True),
      (Attribute ''/EmitterPosition'' ''Type'', ''PositionType'', True),
      (Attribute ''/EmitterPosition'' ''Units'', ''PositionUnits'', True),
      (Dataset ''/EmitterDescription'', ''Description'', False),
      (Dataset ''/EmitterView'', ''View'', False),
      (Dataset ''/EmitterUp'', ''Up'', False)]"
  by (simp add: SOFA_plan_def root_plan_def req_attributes_def other_attributes_def
        entities_def AudioObject_plan_def required_datasets_def
        AudioObject_req_attributes_def other_datasets_def)

lemma FIR_plan_eq:
  "FIR_plan =
     [(Dataset ''/Data.IR'', ''IR'', True),
      (Dataset ''/Data.Delay'', ''Delay'', True),
      (Dataset ''/Data.SamplingRate'', ''SamplingRate'', True),
      (Attribute ''/Data.SamplingRate'' ''Units'', ''SamplingRateUnits'', True)]"
  by (simp add: FIR_plan_def FIR_datasets_def FIR_attributes_def)

lemma required_fields_plans:
  "required_fields = map fst (filter (\<lambda>(f, dest, required). required) (SOFA_plan @ FIR_plan))"
  by (simp add: required_fields_def SOFA_bindings_def SOFA_plan_eq FIR_plan_eq
        root_plan_def req_attributes_def other_attributes_def
        entities_def AudioObject_plan_def required_datasets_def
        AudioObject_req_attributes_def other_datasets_def)

lemma optional_fields_plans:
  "optional_fields =
     map fst (filter (\<lambda>(f, dest, required). \<not> required) (SOFA_plan @ FIR_plan))"
  by (simp add: optional_fields_def SOFA_bindings_def SOFA_plan_eq FIR_plan_eq
        root_plan_def req_attributes_def other_attributes_def
        entities_def AudioObject_plan_def required_datasets_def
        AudioObject_req_attributes_def other_datasets_def)

lemma not_broken_iff: "\<not> broken c f \<longleftrightarrow> present c f \<or> absent c f"
  by (simp add: broken_def present_def absent_def split: read_result.splits)

lemma passes_fields:
  "list_all (\<lambda>(f, dest, required). present c f \<or> (\<not> required \<and> absent c f)) plan \<longleftrightarrow>
     list_all (present c) (map fst (filter (\<lambda>(f, dest, required). required) plan)) \<and>
     list_all (\<lambda>f. \<not> broken c f)
       (map fst (filter (\<lambda>(f, dest, required). \<not> required) plan))"
  by (induction plan) (auto simp: not_broken_iff)

lemma plan_result_passes: "plan_result c plan = Inr () \<longleftrightarrow> passes c plan"
  by (simp add: plan_passes_iff passes_def)

lemma passes_append: "passes c (p @ q) \<longleftrightarrow> passes c p \<and> passes c q"
  by (simp add: passes_def)

lemma dispatch_result_FIR: "data_type_is_FIR c \<Longrightarrow> dispatch_result c = plan_result c FIR_plan"
  by (simp add: data_type_is_FIR_def dispatch_result_def split: read_result.splits)

lemma dispatch_result_success:
  "dispatch_result c = Inr () \<longleftrightarrow> data_type_is_FIR c \<and> plan_result c FIR_plan = Inr ()"
  by (auto simp: data_type_is_FIR_def dispatch_result_def
      split: read_result.splits sum.splits if_splits)

lemma truth_of_equals_PStr [simp]: "truth_of_equals (PStr t) s = Inr (t = s)"
  by (simp add: truth_of_equals_def)

lemma well_formed_data_type: "well_formed c \<Longrightarrow> data_type_is_FIR c"
  by (simp add: well_formed_def data_type_is_FIR_def)

text \<open>
  The construction succeeds exactly when every required field is present, no optional
  field is broken and the dispatch takes the data type for \<^verbatim>\<open>'FIR'\<close>.
\<close>

lemma SOFA_result_success:
  "SOFA_result c = Inr () \<longleftrightarrow>
     list_all (present c) required_fields \<and>
     list_all (\<lambda>f. \<not> broken c f) optional_fields \<and>
     data_type_is_FIR c"
proof -
  have "SOFA_result c = Inr () \<longleftrightarrow>
          plan_result c (SOFA_plan @ FIR_plan) = Inr () \<and> data_type_is_FIR c"
    by (auto simp: SOFA_result_def plan_result_append dispatch_result_success
        split: sum.splits)
  then show ?thesis
    unfolding required_fields_plans optional_fields_plans plan_passes_iff passes_fields
    by simp
qed

lemma well_formed_SOFA_result: "well_formed c \<Longrightarrow> SOFA_result c = Inr ()"
  unfolding SOFA_result_success using well_formed_data_type [of c]
  by (simp add: well_formed_def)

lemma success_present:
  "SOFA_result c = Inr () \<Longrightarrow> f \<in> set required_fields \<Longrightarrow> present c f"
  by (simp add: SOFA_result_success list_all_iff)

lemma success_not_broken:
  "SOFA_result c = Inr () \<Longrightarrow> f \<in> set optional_fields \<Longrightarrow> \<not> broken c f"
  by (simp add: SOFA_result_success list_all_iff)

subsection \<open>The example containers\<close>

lemma present_full_container [simp]: "present full_container f"
  by (cases f) (simp_all add: present_def full_container_def)

lemma present_other_container [simp]: "present other_container f"
  by (cases f) (simp_all add: present_def other_container_def)

lemma absent_empty_container [simp]: "absent empty_container f"
  by (cases f) (simp_all add: absent_def empty_container_def)

lemma all_present_passes: "(\<And>f. present c f) \<Longrightarrow> plan_result c plan = Inr ()"
  by (simp add: plan_passes_iff list_all_iff split: prod.splits)

lemma well_formed_full_container: "well_formed full_container"
  by (simp add: well_formed_def list_all_iff not_broken_iff) (simp add: full_container_def)

lemma SOFA_result_full_container: "SOFA_result full_container = Inr ()"
  by (rule well_formed_SOFA_result [OF well_formed_full_container])

lemma SOFA_result_empty_container:
  "SOFA_result empty_container =
     Inl (Exception ''Required Attribute Conventions not found!'')"
  by (simp add: SOFA_result_def SOFA_plan_eq plan_result_Cons empty_container_def)

lemma SOFA_result_other_container:
  "SOFA_result other_container =
     Inl (Exception ''Currently only the Datatype FIR is Implemented'')"
  by (simp add: SOFA_result_def all_present_passes dispatch_result_def)
    (simp add: other_container_def)

lemma reads_my_sofa: "reads_container (PyStr ''my.sofa'') example_world full_container"
  by (simp add: example_world_def)

lemma reads_bad_sofa: "reads_container (PyStr ''bad.sofa'') example_world empty_container"
  by (simp add: example_world_def)

lemma reads_xyz_sofa: "reads_container (PyStr ''xyz.sofa'') example_world other_container"
  by (simp add: example_world_def)

subsection \<open>The file a construction opens, and when it closes it\<close>

lemma isl_returned [simp]: "isl (returned (ob, r)) = isl r"
  by (cases r) (simp_all add: returned_def)

lemma SOFA_init_path_world:
  assumes "path \<noteq> []" and "files w path = Some c"
  shows "fst (SOFA_init (PyStr path) w) =
           w\<lparr>heap := heap w @
               [\<lparr>filename = path, contents = c,
                 isopen = isl (snd (SOFA_init (PyStr path) w))\<rparr>]\<rparr>"
  by (simp add: SOFA_init_path [OF assms] Let_def)

text \<open>
  C2, as amended. A \<^verbatim>\<open>SOFA\<close> construction from the path of a file that exists
  opens that file and no other; the file object it opened is closed when the
  construction returns an object, and is still open when the construction raises.
\<close>

theorem path_handle_closed_iff_success:
  assumes "path \<noteq> []" and "files w path = Some c"
  shows "files (fst (SOFA_init (PyStr path) w)) = files w \<and>
         heap (fst (SOFA_init (PyStr path) w)) =
           heap w @ [\<lparr>filename = path, contents = c,
                      isopen = isl (snd (SOFA_init (PyStr path) w))\<rparr>]"
  by (simp add: SOFA_init_path_world [OF assms])

theorem path_handle_closed_iff_success_witness:
  "''my.sofa'' \<noteq> [] \<and> files example_world ''my.sofa'' = Some full_container \<and>
   \<not> isl (snd (SOFA_init (PyStr ''my.sofa'') example_world)) \<and>
   files (fst (SOFA_init (PyStr ''my.sofa'') example_world)) = files example_world \<and>
   heap (fst (SOFA_init (PyStr ''my.sofa'') example_world)) =
     heap example_world @
       [\<lparr>filename = ''my.sofa'', contents = full_container, isopen = False\<rparr>]"
proof -
  have p: "''my.sofa'' \<noteq> []" and f: "files example_world ''my.sofa'' = Some full_container"
    by (simp_all add: example_world_def)
  from SOFA_init_succeeds_iff [OF reads_my_sofa] SOFA_result_full_container
  have s: "\<not> isl (snd (SOFA_init (PyStr ''my.sofa'') example_world))" by auto
  with path_handle_closed_iff_success [OF p f] p f show ?thesis by simp
qed

text \<open>
  The claim as stated fails: the file \<^verbatim>\<open>bad.sofa\<close> holds no field, the construction
  raises for the first required attribute, and the file object it opened is left open.
\<close>

theorem failed_construction_leaves_handle_open:
  "snd (SOFA_init (PyStr ''bad.sofa'') example_world) =
     Inl (Exception ''Required Attribute Conventions not found!'') \<and>
   heap (fst (SOFA_init (PyStr ''bad.sofa'') example_world)) =
     heap example_world @
       [\<lparr>filename = ''bad.sofa'', contents = empty_container, isopen = True\<rparr>]"
proof -
  have p: "''bad.sofa'' \<noteq> []" and f: "files example_world ''bad.sofa'' = Some empty_container"
    by (simp_all add: example_world_def)
  from SOFA_init_fails_iff [OF reads_bad_sofa] SOFA_result_empty_container
  have s: "snd (SOFA_init (PyStr ''bad.sofa'') example_world) =
             Inl (Exception ''Required Attribute Conventions not found!'')" by simp
  with SOFA_init_path_world [OF p f] show ?thesis by simp
qed

text \<open>
  C1. \<^verbatim>\<open>AudioObject.from_file\<close> and \<^verbatim>\<open>FIR.from_file\<close> pass the fixed name
  \<^verbatim>\<open>'dtf_nh2.sofa'\<close> to \<^verbatim>\<open>open_file\<close>, whatever string they are called with. In the example
  world the file \<^verbatim>\<open>my.sofa\<close> exists and \<^verbatim>\<open>dtf_nh2.sofa\<close> does not: both constructors
  called with \<^verbatim>\<open>'my.sofa'\<close> raise the library's error for a file that cannot be opened.
  Where \<^verbatim>\<open>dtf_nh2.sofa\<close> exists, it is the file that is opened and read.
\<close>

theorem string_path_opens_fixed_file:
  "files example_world ''my.sofa'' = Some full_container \<and>
   files example_world ''dtf_nh2.sofa'' = None \<and>
   AudioObject_init ''Listener'' (PyStr ''my.sofa'') example_world =
     (example_world, Inl (OtherError ''IOError'')) \<and>
   FIR_init (PyStr ''my.sofa'') example_world =
     (example_world, Inl (OtherError ''IOError'')) \<and>
   AudioObject_init ''Listener'' (PyStr ''my.sofa'')
       (example_world\<lparr>files := (files example_world)(''dtf_nh2.sofa'' \<mapsto> empty_container)\<rparr>) =
     (example_world\<lparr>files := (files example_world)(''dtf_nh2.sofa'' \<mapsto> empty_container),
                     heap := heap example_world @
                       [\<lparr>filename = ''dtf_nh2.sofa'', contents = empty_container,
                         isopen = True\<rparr>]\<rparr>,
      Inl (Exception ''Required Dataset /ListenerPosition not found!''))"
  by (simp add: example_world_def AudioObject_init_def AudioObject_from_file_def
        FIR_init_def FIR_from_file_def resolve_handle_def open_file_def
        AudioObject_read_def required_datasets_def then_do_def add_data_def
        get_node_read_def empty_container_def nth_append)

lemma reads_world_with: "reads_container (PyFile 0) (world_with c) c"
  by (simp add: world_with_def opened_def)

lemma reads_damaged: "reads_container (PyFile 1) example_world damaged_container"
  by (simp add: example_world_def opened_def)

lemma container_read_remove_same:
  "container_read (remove_field f c) f = Raises (AttributeError (field_name f))"
  by (cases f) simp_all

lemma container_read_remove_other:
  "g \<noteq> f \<Longrightarrow> container_read (remove_field f c) g = container_read c g"
  by (cases f; cases g) auto

lemma absent_remove_field [simp]: "absent (remove_field f c) f"
  by (simp add: absent_def container_read_remove_same)

lemma present_remove_other: "g \<noteq> f \<Longrightarrow> present (remove_field f c) g = present c g"
  by (simp add: present_def container_read_remove_other)

lemma broken_remove_field: "broken (remove_field f c) g \<Longrightarrow> broken c g"
  by (cases "g = f") (simp_all add: broken_def container_read_remove_same
      container_read_remove_other)

lemma present_not_absent: "present c f \<Longrightarrow> \<not> absent c f"
  by (simp add: present_def absent_def split: read_result.splits)

lemma present_not_broken: "present c f \<Longrightarrow> \<not> broken c f"
  by (simp add: present_def broken_def split: read_result.splits)

lemma names_required_message: "names (required_message f) f"
proof (cases f)
  case (Dataset node)
  have "sublist node (''Required Dataset '' @ node @ '' not found!'')"
    by (rule sublist_appendI)
  with Dataset show ?thesis by (simp add: names_def)
next
  case (Attribute node a)
  have "sublist a (''Required Attribute '' @ a @ '' not found!'')"
    by (rule sublist_appendI)
  with Attribute show ?thesis by (simp add: names_def)
qed

lemma not_sublist_by_char: "x \<in> set xs \<Longrightarrow> x \<notin> set ys \<Longrightarrow> \<not> sublist xs ys"
  using set_mono_sublist by blast

subsection \<open>The dispatch on the data type\<close>

lemma truth_of_equals_examples:
  "truth_of_equals (PStr ''FIR'') ''FIR'' = Inr True"
  "truth_of_equals (PStr ''XYZ'') ''FIR'' = Inr False"
  "truth_of_equals (PArr [PStr ''FIR'']) ''FIR'' = Inr True"
  "truth_of_equals (PArr [PNum 1, PNum 2]) ''FIR'' = Inl ValueError"
  by (simp_all add: truth_of_equals_def)

lemma SOFA_result_unsupported:
  assumes "node_attr c ''/'' ''DataType'' = Returns dt"
    and "truth_of_equals dt ''FIR'' \<noteq> Inr True"
  shows "isl (SOFA_result c)"
    and "dt = PStr tag \<Longrightarrow> passes c SOFA_plan \<Longrightarrow>
         SOFA_result c = Inl (Exception ''Currently only the Datatype FIR is Implemented'')"
proof -
  from assms have "isl (dispatch_result c)"
    by (simp add: dispatch_result_def split: sum.splits)
  then show "isl (SOFA_result c)" by (simp add: SOFA_result_def split: sum.splits)
  assume "dt = PStr tag" and "passes c SOFA_plan"
  with assms
  have "dispatch_result c = Inl (Exception ''Currently only the Datatype FIR is Implemented'')"
    and "plan_result c SOFA_plan = Inr ()"
    by (simp_all add: dispatch_result_def plan_result_passes)
  then show "SOFA_result c = Inl (Exception ''Currently only the Datatype FIR is Implemented'')"
    by (simp add: SOFA_result_def)
qed

lemma isl_SOFA_init:
  assumes "reads_container sofa_file w c"
  shows "isl (snd (SOFA_init sofa_file w)) = isl (SOFA_result c)"
proof (cases "snd (SOFA_init sofa_file w)")
  case (Inl e)
  with SOFA_init_outcome [OF assms] have "SOFA_result c = Inl e" by simp
  with Inl show ?thesis by simp
next
  case (Inr ob)
  with SOFA_init_outcome [OF assms] have "SOFA_result c = Inr ()" by simp
  with Inr show ?thesis by simp
qed

text \<open>
  C5, as amended. When the dispatch does not take the comparison of the root attribute
  \<^verbatim>\<open>DataType\<close> with \<^verbatim>\<open>'FIR'\<close> as true (the value is a string other than \<^verbatim>\<open>'FIR'\<close>, a
  number, or an array whose comparison, element by element, is not a single true), the
  construction fails whatever the other fields are. When the value is a string and
  every bind before the dispatch succeeds (each field present, or optional and absent),
  the exception is the fixed \<^verbatim>\<open>Exception('Currently only the Datatype FIR is Implemented')\<close>,
  the same for every such tag.
\<close>

theorem unsupported_data_type_fails:
  assumes "reads_container sofa_file w c"
    and "node_attr c ''/'' ''DataType'' = Returns dt"
    and "truth_of_equals dt ''FIR'' \<noteq> Inr True"
  shows "isl (snd (SOFA_init sofa_file w)) \<and>
         ((\<exists>tag. dt = PStr tag) \<and> passes c SOFA_plan
            \<longrightarrow> snd (SOFA_init sofa_file w) =
                   Inl (Exception ''Currently only the Datatype FIR is Implemented''))"
proof (intro conjI impI)
  from SOFA_result_unsupported(1) [OF assms(2,3)] isl_SOFA_init [OF assms(1)]
  show "isl (snd (SOFA_init sofa_file w))" by simp
next
  assume "(\<exists>tag. dt = PStr tag) \<and> passes c SOFA_plan"
  then obtain tag where "dt = PStr tag" and "passes c SOFA_plan" by blast
  from SOFA_result_unsupported(2) [OF assms(2,3) this]
  show "snd (SOFA_init sofa_file w) =
          Inl (Exception ''Currently only the Datatype FIR is Implemented'')"
    by (simp add: SOFA_init_fails_iff [OF assms(1)])
qed

theorem unsupported_data_type_fails_witness:
  "reads_container (PyStr ''xyz.sofa'') example_world other_container \<and>
   node_attr other_container ''/'' ''DataType'' = Returns (PStr ''XYZ'') \<and>
   truth_of_equals (PStr ''XYZ'') ''FIR'' = Inr False \<and>
   passes other_container SOFA_plan \<and>
   isl (snd (SOFA_init (PyStr ''xyz.sofa'') example_world)) \<and>
   snd (SOFA_init (PyStr ''xyz.sofa'') example_world) =
     Inl (Exception ''Currently only the Datatype FIR is Implemented'') \<and>
   reads_container (PyFile 0) (world_with numeric_container) numeric_container \<and>
   node_attr numeric_container ''/'' ''DataType'' = Returns (PArr [PNum 1, PNum 2]) \<and>
   truth_of_equals (PArr [PNum 1, PNum 2]) ''FIR'' = Inl ValueError \<and>
   isl (snd (SOFA_init (PyFile 0) (world_with numeric_container)))"
proof -
  have dt: "node_attr other_container ''/'' ''DataType'' = Returns (PStr ''XYZ'')"
    by (simp add: other_container_def)
  have ne: "truth_of_equals (PStr ''XYZ'') ''FIR'' \<noteq> Inr True" by simp
  have all: "passes other_container SOFA_plan"
    by (simp add: passes_def list_all_iff split: prod.splits)
  from unsupported_data_type_fails [OF reads_xyz_sofa dt ne] all
  have 1: "isl (snd (SOFA_init (PyStr ''xyz.sofa'') example_world))"
    and 2: "snd (SOFA_init (PyStr ''xyz.sofa'') example_world) =
              Inl (Exception ''Currently only the Datatype FIR is Implemented'')"
    by blast+
  have dt': "node_attr numeric_container ''/'' ''DataType'' = Returns (PArr [PNum 1, PNum 2])"
    by (simp add: numeric_container_def)
  have ne': "truth_of_equals (PArr [PNum 1, PNum 2]) ''FIR'' \<noteq> Inr True"
    by (simp add: truth_of_equals_examples)
  from unsupported_data_type_fails [OF reads_world_with dt' ne']
  have 3: "isl (snd (SOFA_init (PyFile 0) (world_with numeric_container)))" by (rule conjunct1)
  from reads_xyz_sofa dt truth_of_equals_examples(2) all 1 2
    reads_world_with [of numeric_container] dt' truth_of_equals_examples(4) 3
  show ?thesis by (intro conjI)
qed

text \<open>
  The claim as stated fails: with \<^verbatim>\<open>DataType = 'XYZ'\<close> the message of the exception does
  not contain the tag.
\<close>

theorem unsupported_message_omits_tag:
  "node_attr other_container ''/'' ''DataType'' = Returns (PStr ''XYZ'') \<and>
   snd (SOFA_init (PyStr ''xyz.sofa'') example_world) =
     Inl (Exception ''Currently only the Datatype FIR is Implemented'') \<and>
   \<not> sublist ''XYZ'' ''Currently only the Datatype FIR is Implemented''"
proof -
  have "node_attr other_container ''/'' ''DataType'' = Returns (PStr ''XYZ'')"
    by (simp add: other_container_def)
  moreover from SOFA_init_fails_iff [OF reads_xyz_sofa] SOFA_result_other_container
  have "snd (SOFA_init (PyStr ''xyz.sofa'') example_world) =
          Inl (Exception ''Currently only the Datatype FIR is Implemented'')" by simp
  moreover have "\<not> sublist ''XYZ'' ''Currently only the Datatype FIR is Implemented''"
    by (rule not_sublist_by_char [of "CHR ''X''"]) simp_all
  ultimately show ?thesis by simp
qed

subsection \<open>An absent required field\<close>

lemma required_of_plan_mem:
  "f \<in> set (map fst (filter (\<lambda>(f, dest, required). required) plan)) \<longleftrightarrow>
     (\<exists>dest. (f, dest, True) \<in> set plan)"
  by (induction plan) auto

lemma optional_of_plan_mem:
  "f \<in> set (map fst (filter (\<lambda>(f, dest, required). \<not> required) plan)) \<longleftrightarrow>
     (\<exists>dest. (f, dest, False) \<in> set plan)"
  by (induction plan) auto

lemma required_fields_mem:
  "f \<in> set required_fields \<longleftrightarrow> (\<exists>dest. (f, dest, True) \<in> set (SOFA_plan @ FIR_plan))"
  unfolding required_fields_plans by (rule required_of_plan_mem)

lemma optional_fields_mem:
  "f \<in> set optional_fields \<longleftrightarrow> (\<exists>dest. (f, dest, False) \<in> set (SOFA_plan @ FIR_plan))"
  unfolding optional_fields_plans by (rule optional_of_plan_mem)

lemma DataType_in_SOFA_plan:
  "(Attribute ''/'' ''DataType'', ''DataType'', True) \<in> set SOFA_plan"
  by (simp add: SOFA_plan_eq)

lemma well_formed_present:
  "well_formed c \<Longrightarrow> f \<in> set required_fields \<Longrightarrow> present c f"
  by (simp add: well_formed_def list_all_iff)

lemma well_formed_not_broken:
  "well_formed c \<Longrightarrow> f \<in> set optional_fields \<Longrightarrow> \<not> broken c f"
  by (simp add: well_formed_def list_all_iff)

lemma SOFA_result_names_absent:
  assumes req: "f \<in> set required_fields" and ab: "absent c f"
    and others: "\<forall>g\<in>set required_fields. g \<noteq> f \<longrightarrow> present c g"
    and opt: "\<forall>g\<in>set optional_fields. \<not> broken c g"
    and dt: "f \<noteq> Attribute ''/'' ''DataType'' \<longrightarrow> data_type_is_FIR c"
  shows "SOFA_result c = Inl (Exception (required_message f))"
proof -
  have ok: "g \<noteq> f \<longrightarrow> present c g \<or> (\<not> r \<and> absent c g)"
    if "(g, d, r) \<in> set (SOFA_plan @ FIR_plan)" for g d r
  proof (cases r)
    case True
    with that have "(g, d, True) \<in> set (SOFA_plan @ FIR_plan)" by simp
    then have "g \<in> set required_fields" unfolding required_fields_mem by blast
    with others show ?thesis by blast
  next
    case False
    with that have "(g, d, False) \<in> set (SOFA_plan @ FIR_plan)" by simp
    then have "g \<in> set optional_fields" unfolding optional_fields_mem by blast
    with opt have "\<not> broken c g" by blast
    with False show ?thesis by (simp add: not_broken_iff)
  qed
  from req obtain dest where mem: "(f, dest, True) \<in> set (SOFA_plan @ FIR_plan)"
    unfolding required_fields_mem by blast
  show ?thesis
  proof (cases "\<exists>d. (f, d, True) \<in> set SOFA_plan")
    case True
    then obtain d where "(f, d, True) \<in> set SOFA_plan" by blast
    moreover from ok
    have "\<forall>(g, d, r)\<in>set SOFA_plan. g \<noteq> f \<longrightarrow> present c g \<or> (\<not> r \<and> absent c g)"
      by auto
    ultimately have "plan_result c SOFA_plan = Inl (Exception (required_message f))"
      using ab by (intro plan_fails_naming)
    then show ?thesis by (simp add: SOFA_result_def)
  next
    case False
    with mem have fir: "(f, dest, True) \<in> set FIR_plan" by auto
    from False DataType_in_SOFA_plan have "f \<noteq> Attribute ''/'' ''DataType''" by blast
    with dt have fir_type: "data_type_is_FIR c" by blast
    have "present c g \<or> (\<not> r \<and> absent c g)" if "(g, d, r) \<in> set SOFA_plan" for g d r
    proof (cases "g = f")
      case True
      with that False have "\<not> r" by (cases r) auto
      with True ab show ?thesis by simp
    next
      case False
      with ok [of g d r] that show ?thesis by simp
    qed
    then have "plan_result c SOFA_plan = Inr ()"
      unfolding plan_passes_iff list_all_iff by auto
    moreover from ok
    have "\<forall>(g, d, r)\<in>set FIR_plan. g \<noteq> f \<longrightarrow> present c g \<or> (\<not> r \<and> absent c g)"
      by auto
    with fir ab have "plan_result c FIR_plan = Inl (Exception (required_message f))"
      by (intro plan_fails_naming)
    ultimately show ?thesis using fir_type by (simp add: SOFA_result_def dispatch_result_FIR)
  qed
qed

lemma plan_fails_at:
  assumes "passes c p" and "absent c f"
  shows "plan_result c (p @ (f, dest, True) # q) = Inl (Exception (required_message f))"
proof -
  from assms(1) have "plan_result c p = Inr ()" by (simp add: plan_result_passes)
  moreover from assms(2)
  have "plan_result c ((f, dest, True) # q) = Inl (Exception (required_message f))"
    unfolding plan_result_Cons by (simp add: absent_def split: read_result.splits)
  ultimately show ?thesis by (simp add: plan_result_append)
qed

text \<open>
  The first bind that fails decides the exception: when the binds before the one of an
  absent required field all succeed, the message is the one for that field.
\<close>

lemma SOFA_result_first_failure:
  assumes dec: "SOFA_plan @ FIR_plan = before @ (f, dest, True) # after"
    and ab: "absent c f" and pass: "passes c before"
    and dt: "(f, dest, True) \<in> set FIR_plan \<longrightarrow> data_type_is_FIR c"
  shows "SOFA_result c = Inl (Exception (required_message f))"
proof -
  have in_SOFA: "SOFA_result c = Inl (Exception (required_message f))"
    if "SOFA_plan = p @ (f, dest, True) # q" and "passes c p" for p q
    using plan_fails_at [OF that(2) ab, of dest q] that(1) by (simp add: SOFA_result_def)
  have in_FIR: "SOFA_result c = Inl (Exception (required_message f))"
    if "FIR_plan = p @ (f, dest, True) # q" and "passes c p" and "passes c SOFA_plan" for p q
  proof -
    have "(f, dest, True) \<in> set (p @ (f, dest, True) # q)" by simp
    with that(1) have "(f, dest, True) \<in> set FIR_plan" by simp
    with dt have "dispatch_result c = plan_result c FIR_plan" by (simp add: dispatch_result_FIR)
    moreover from that(3) have "plan_result c SOFA_plan = Inr ()"
      by (simp add: plan_result_passes)
    ultimately show ?thesis
      using plan_fails_at [OF that(2) ab, of dest q] that(1) by (simp add: SOFA_result_def)
  qed
  from dec obtain us where
    "SOFA_plan = before @ us \<and> us @ FIR_plan = (f, dest, True) # after \<or>
     SOFA_plan @ us = before \<and> FIR_plan = us @ (f, dest, True) # after"
    unfolding append_eq_append_conv2 by blast
  then show ?thesis
  proof (elim disjE conjE)
    assume sp: "SOFA_plan = before @ us" and r: "us @ FIR_plan = (f, dest, True) # after"
    show ?thesis
    proof (cases us)
      case Nil
      with r have "FIR_plan = [] @ (f, dest, True) # after" by simp
      moreover have "passes c []" by (simp add: passes_def)
      moreover from sp Nil pass have "passes c SOFA_plan" by simp
      ultimately show ?thesis by (rule in_FIR)
    next
      case (Cons x us')
      with r have "x = (f, dest, True)" by simp
      with sp Cons have "SOFA_plan = before @ (f, dest, True) # us'" by simp
      from in_SOFA [OF this pass] show ?thesis .
    qed
  next
    assume sp: "SOFA_plan @ us = before" and r: "FIR_plan = us @ (f, dest, True) # after"
    from sp pass have "passes c (SOFA_plan @ us)" by simp
    then have "passes c SOFA_plan" and "passes c us"
      by (simp_all add: passes_append)
    from in_FIR [OF r this(2,1)] show ?thesis .
  qed
qed

lemma SOFA_result_absent_fails:
  assumes "f \<in> set required_fields" and "absent c f"
  shows "isl (SOFA_result c)"
proof (cases "SOFA_result c")
  case (Inl e)
  then show ?thesis by simp
next
  case (Inr u)
  then have "SOFA_result c = Inr ()" by simp
  from success_present [OF this assms(1)] present_not_absent assms(2)
  show ?thesis by blast
qed

lemma removed_from_well_formed:
  assumes "well_formed c"
  shows "(\<forall>g\<in>set required_fields. g \<noteq> f \<longrightarrow> present (remove_field f c) g) \<and>
         (\<forall>g\<in>set optional_fields. \<not> broken (remove_field f c) g) \<and>
         (f \<noteq> Attribute ''/'' ''DataType'' \<longrightarrow> data_type_is_FIR (remove_field f c))"
proof (intro conjI ballI impI)
  fix g assume "g \<in> set required_fields" and "g \<noteq> f"
  with well_formed_present [OF assms] show "present (remove_field f c) g"
    by (simp add: present_remove_other)
next
  fix g assume "g \<in> set optional_fields"
  with well_formed_not_broken [OF assms] broken_remove_field [of f c g]
  show "\<not> broken (remove_field f c) g" by blast
next
  assume "f \<noteq> Attribute ''/'' ''DataType''"
  then have "container_read (remove_field f c) (Attribute ''/'' ''DataType'') =
               container_read c (Attribute ''/'' ''DataType'')"
    by (intro container_read_remove_other) simp
  with well_formed_data_type [OF assms] show "data_type_is_FIR (remove_field f c)"
    by (simp add: data_type_is_FIR_def)
qed

lemma SOFA_result_removed_field:
  assumes "well_formed c" and "f \<in> set required_fields"
  shows "SOFA_result (remove_field f c) = Inl (Exception (required_message f))"
  using removed_from_well_formed [OF assms(1), of f]
  by (intro SOFA_result_names_absent [OF assms(2) absent_remove_field]) blast+

text \<open>
  C3. When a required field (one of the fourteen root attributes, the position dataset
  of an entity or one of its two attributes, a dataset or the attribute of the FIR
  payload) is absent from the container, the construction fails: it never returns an
  object. The binds run in the order of the descriptor lists and the first one that
  fails ends the construction: when the binds before the one of the absent field all
  succeed (and the data type is \<^verbatim>\<open>'FIR'\<close> when the field is one of the payload), the
  exception is \<^verbatim>\<open>Exception('Required Attribute ... not found!')\<close> or
  \<^verbatim>\<open>Exception('Required Dataset ... not found!')\<close> for that field. That is the case of a
  container that is well formed but for that field. The message contains the name of
  the attribute, or the path of the dataset.
\<close>

theorem absent_required_field_fails:
  assumes "reads_container sofa_file w c" and "f \<in> set required_fields" and "absent c f"
  shows "isl (snd (SOFA_init sofa_file w)) \<and>
         (\<forall>before dest after.
            SOFA_plan @ FIR_plan = before @ (f, dest, True) # after \<and> passes c before \<and>
            ((f, dest, True) \<in> set FIR_plan \<longrightarrow> data_type_is_FIR c)
            \<longrightarrow> snd (SOFA_init sofa_file w) = Inl (Exception (required_message f))) \<and>
         (\<forall>c0. well_formed c0 \<and> c = remove_field f c0
            \<longrightarrow> snd (SOFA_init sofa_file w) = Inl (Exception (required_message f))) \<and>
         names (required_message f) f"
proof (intro conjI allI impI)
  from SOFA_result_absent_fails [OF assms(2,3)] isl_SOFA_init [OF assms(1)]
  show "isl (snd (SOFA_init sofa_file w))" by simp
next
  fix before dest after
  assume h: "SOFA_plan @ FIR_plan = before @ (f, dest, True) # after \<and> passes c before \<and>
             ((f, dest, True) \<in> set FIR_plan \<longrightarrow> data_type_is_FIR c)"
  then have "SOFA_result c = Inl (Exception (required_message f))"
    using assms(3) by (intro SOFA_result_first_failure [of before f dest after]) blast+
  then show "snd (SOFA_init sofa_file w) = Inl (Exception (required_message f))"
    by (simp add: SOFA_init_fails_iff [OF assms(1)])
next
  fix c0 assume "well_formed c0 \<and> c = remove_field f c0"
  with SOFA_result_removed_field [of c0 f] assms(2)
  have "SOFA_result c = Inl (Exception (required_message f))" by simp
  then show "snd (SOFA_init sofa_file w) = Inl (Exception (required_message f))"
    by (simp add: SOFA_init_fails_iff [OF assms(1)])
next
  show "names (required_message f) f" by (rule names_required_message)
qed

lemma Version_second:
  "SOFA_plan @ FIR_plan =
     [(Attribute ''/'' ''Conventions'', ''Conventions'', True)] @
     (Attribute ''/'' ''Version'', ''Version'', True) # drop 2 (SOFA_plan @ FIR_plan)"
  by (simp add: SOFA_plan_eq)

lemma Conventions_first:
  "SOFA_plan @ FIR_plan =
     [] @ (Attribute ''/'' ''Conventions'', ''Conventions'', True) #
       drop 1 (SOFA_plan @ FIR_plan)"
  by (simp add: SOFA_plan_eq)

lemma not_in_FIR_plan:
  "(Attribute ''/'' ''Version'', ''Version'', True) \<notin> set FIR_plan"
  "(Attribute ''/'' ''Conventions'', ''Conventions'', True) \<notin> set FIR_plan"
  by (simp_all add: FIR_plan_eq)

theorem absent_required_field_fails_witness:
  "reads_container (PyFile 0)
     (world_with (remove_field (Attribute ''/'' ''Version'') full_container))
     (remove_field (Attribute ''/'' ''Version'') full_container) \<and>
   Attribute ''/'' ''Version'' \<in> set required_fields \<and>
   absent (remove_field (Attribute ''/'' ''Version'') full_container)
     (Attribute ''/'' ''Version'') \<and>
   well_formed full_container \<and>
   passes (remove_field (Attribute ''/'' ''Version'') full_container)
     [(Attribute ''/'' ''Conventions'', ''Conventions'', True)] \<and>
   isl (snd (SOFA_init (PyFile 0)
     (world_with (remove_field (Attribute ''/'' ''Version'') full_container)))) \<and>
   snd (SOFA_init (PyFile 0)
     (world_with (remove_field (Attribute ''/'' ''Version'') full_container))) =
     Inl (Exception ''Required Attribute Version not found!'') \<and>
   names ''Required Attribute Version not found!'' (Attribute ''/'' ''Version'') \<and>
   reads_container (PyStr ''bad.sofa'') example_world empty_container \<and>
   Attribute ''/'' ''Conventions'' \<in> set required_fields \<and>
   absent empty_container (Attribute ''/'' ''Conventions'') \<and>
   passes empty_container [] \<and>
   snd (SOFA_init (PyStr ''bad.sofa'') example_world) =
     Inl (Exception ''Required Attribute Conventions not found!'')"
proof -
  let ?f = "Attribute ''/'' ''Version''"
  let ?g = "Attribute ''/'' ''Conventions''"
  let ?c = "remove_field ?f full_container"
  have req: "?f \<in> set required_fields"
    unfolding required_fields_mem
    by (rule exI [of _ "''Version''"]) (simp add: SOFA_plan_eq)
  have req': "?g \<in> set required_fields"
    unfolding required_fields_mem
    by (rule exI [of _ "''Conventions''"]) (simp add: SOFA_plan_eq)
  have ab: "absent ?c ?f" by (rule absent_remove_field)
  have ab': "absent empty_container ?g" by simp
  have "present ?c ?g = present full_container ?g"
    by (rule present_remove_other) simp
  then have pass: "passes ?c [(?g, ''Conventions'', True)]"
    by (simp add: passes_def)
  have pass': "passes empty_container []" by (simp add: passes_def)
  have msg: "required_message ?f = ''Required Attribute Version not found!''"
    and msg': "required_message ?g = ''Required Attribute Conventions not found!''"
    by simp_all
  note t = absent_required_field_fails [OF reads_world_with req ab]
  from t have 1: "isl (snd (SOFA_init (PyFile 0) (world_with ?c)))" by (rule conjunct1)
  from t have "\<forall>before dest after.
      SOFA_plan @ FIR_plan = before @ (?f, dest, True) # after \<and> passes ?c before \<and>
      ((?f, dest, True) \<in> set FIR_plan \<longrightarrow> data_type_is_FIR ?c)
      \<longrightarrow> snd (SOFA_init (PyFile 0) (world_with ?c)) = Inl (Exception (required_message ?f))"
    by (rule conjunct1 [OF conjunct2])
  from this [rule_format, of "[(?g, ''Conventions'', True)]" "''Version''"
      "drop 2 (SOFA_plan @ FIR_plan)"] Version_second pass not_in_FIR_plan(1)
  have 2: "snd (SOFA_init (PyFile 0) (world_with ?c)) = Inl (Exception (required_message ?f))"
    by blast
  from t have 3: "names (required_message ?f) ?f" by (rule conjunct2 [OF conjunct2 [OF conjunct2]])
  note t' = absent_required_field_fails [OF reads_bad_sofa req' ab']
  from t' have "\<forall>before dest after.
      SOFA_plan @ FIR_plan = before @ (?g, dest, True) # after \<and>
      passes empty_container before \<and>
      ((?g, dest, True) \<in> set FIR_plan \<longrightarrow> data_type_is_FIR empty_container)
      \<longrightarrow> snd (SOFA_init (PyStr ''bad.sofa'') example_world) =
            Inl (Exception (required_message ?g))"
    by (rule conjunct1 [OF conjunct2])
  from this [rule_format, of "[]" "''Conventions''" "drop 1 (SOFA_plan @ FIR_plan)"]
    Conventions_first pass' not_in_FIR_plan(2)
  have 4: "snd (SOFA_init (PyStr ''bad.sofa'') example_world) =
             Inl (Exception (required_message ?g))"
    by blast
  from 1 2 3 4 req req' ab ab' pass pass' well_formed_full_container
    reads_world_with [of ?c] reads_bad_sofa
  show ?thesis unfolding msg msg' by (intro conjI)
qed

subsection \<open>Failures that are not "not found"\<close>

lemma optional_broken_fails:
  assumes "f \<in> set optional_fields" and "broken c f"
  shows "isl (SOFA_result c)"
proof (cases "SOFA_result c")
  case (Inl e)
  then show ?thesis by simp
next
  case (Inr u)
  then have "SOFA_result c = Inr ()" by simp
  from success_not_broken [OF this assms(1)] assms(2) show ?thesis by blast
qed

text \<open>
  C6. In both binders, a read that raises an exception outside the \<open>AttributeError\<close>
  family ends the bind with that exception, whatever the \<^verbatim>\<open>required\<close> flag, and leaves
  the object as it was; a read that raises an exception of the family with
  \<^verbatim>\<open>required=False\<close> returns 1 and leaves the object as it was. A \<^verbatim>\<open>SOFA\<close> construction
  on a container in which an optional field is broken fails.
\<close>

theorem other_failures_escalate:
  "(get_node_read w h node = Raises e \<and> \<not> is_AttributeError e \<longrightarrow>
      add_data w ob h node required name = (ob, Inl e)) \<and>
   (get_node_attr w h anode a = Raises e' \<and> \<not> is_AttributeError e' \<longrightarrow>
      add_attribute w ob h anode a required name' = (ob, Inl e')) \<and>
   (get_node_read w h mnode = Raises m \<and> is_AttributeError m \<longrightarrow>
      add_data w ob h mnode False mname = (ob, Inr 1)) \<and>
   (get_node_attr w h manode ma = Raises m' \<and> is_AttributeError m' \<longrightarrow>
      add_attribute w ob h manode ma False mname' = (ob, Inr 1)) \<and>
   (reads_container sofa_file w c \<and> f \<in> set optional_fields \<and> broken c f \<longrightarrow>
      isl (snd (SOFA_init sofa_file w)))"
proof (intro conjI impI)
  assume "reads_container sofa_file w c \<and> f \<in> set optional_fields \<and> broken c f"
  then show "isl (snd (SOFA_init sofa_file w))"
    using optional_broken_fails [of f c] isl_SOFA_init [of sofa_file w c] by simp
qed (simp_all add: add_data_def add_attribute_def)

theorem other_failures_escalate_witness:
  "get_node_read example_world 1 ''/ListenerView'' = Raises (OtherError ''HDF5ExtError'') \<and>
   \<not> is_AttributeError (OtherError ''HDF5ExtError'') \<and>
   add_data example_world Map.empty 1 ''/ListenerView'' False (Some ''View'') =
     (Map.empty, Inl (OtherError ''HDF5ExtError'')) \<and>
   get_node_attr example_world 1 ''/'' ''Comment'' = Raises (OtherError ''HDF5ExtError'') \<and>
   add_attribute example_world Map.empty 1 ''/'' ''Comment'' False None =
     (Map.empty, Inl (OtherError ''HDF5ExtError'')) \<and>
   get_node_read example_world 1 ''/ListenerUp'' = Raises (AttributeError ''/ListenerUp'') \<and>
   is_AttributeError (AttributeError ''/ListenerUp'') \<and>
   add_data example_world Map.empty 1 ''/ListenerUp'' False (Some ''Up'') =
     (Map.empty, Inr 1) \<and>
   get_node_attr example_world 1 ''/'' ''History'' = Raises (AttributeError ''History'') \<and>
   add_attribute example_world Map.empty 1 ''/'' ''History'' False None = (Map.empty, Inr 1) \<and>
   reads_container (PyFile 1) example_world damaged_container \<and>
   Attribute ''/'' ''Comment'' \<in> set optional_fields \<and>
   broken damaged_container (Attribute ''/'' ''Comment'') \<and>
   isl (snd (SOFA_init (PyFile 1) example_world))"
proof -
  have r1: "get_node_read example_world 1 ''/ListenerView'' =
              Raises (OtherError ''HDF5ExtError'')"
    and r2: "get_node_attr example_world 1 ''/'' ''Comment'' =
              Raises (OtherError ''HDF5ExtError'')"
    and r3: "get_node_read example_world 1 ''/ListenerUp'' =
              Raises (AttributeError ''/ListenerUp'')"
    and r4: "get_node_attr example_world 1 ''/'' ''History'' =
              Raises (AttributeError ''History'')"
    by (simp_all add: get_node_read_def get_node_attr_def example_world_def
        damaged_container_def)
  have opt: "Attribute ''/'' ''Comment'' \<in> set optional_fields"
    unfolding optional_fields_mem
    by (rule exI [of _ "''Comment''"]) (simp add: SOFA_plan_eq)
  have br: "broken damaged_container (Attribute ''/'' ''Comment'')"
    by (simp add: broken_def damaged_container_def)
  from other_failures_escalate [of example_world 1 "''/ListenerView''"
      "OtherError ''HDF5ExtError''" Map.empty False "Some ''View''"
      "''/''" "''Comment''" "OtherError ''HDF5ExtError''" None
      "''/ListenerUp''" "AttributeError ''/ListenerUp''" "Some ''Up''"
      "''/''" "''History''" "AttributeError ''History''" None
      "PyFile 1" damaged_container "Attribute ''/'' ''Comment''"]
    r1 r2 r3 r4 opt br reads_damaged
  show ?thesis by simp
qed

subsection \<open>The object a successful construction returns\<close>

lemma returned_Inr: "returned r = Inr ob \<longleftrightarrow> r = (ob, Inr ())"
  by (cases r) (auto simp: returned_def split: sum.splits)

lemma root_attributes_success:
  assumes "opened w h c" and "root_attributes h ps required (self, w) = (s', Inr u)"
  shows "\<exists>self'. s' = (self', w) \<and> run_plan c (root_plan ps required) self = (self', Inr ())"
  using assms(2) unfolding root_attributes_plan [OF assms(1)]
  by (auto split: prod.splits)

lemma assign_AudioObject_success:
  assumes "opened w h c"
    and "assign_new attr (AudioObject_init role (PyFile h)) (self, w) = (s', Inr u)"
  shows "\<exists>ob. s' = (self(attr \<mapsto> PObj ob), w) \<and>
           run_plan c (AudioObject_plan role) (Map.empty(''object_string'' \<mapsto> PStr role)) =
             (ob, Inr ())"
  using assms(2)
  by (auto simp: assign_new_def AudioObject_init_opened [OF assms(1)] returned_Inr
      split: sum.splits)

lemma read_data_success:
  assumes "opened w h c" and "read_data h (self, w) = (s', Inr u)"
  shows "\<exists>d. s' = (self(''data'' \<mapsto> PObj d), w) \<and> run_plan c FIR_plan Map.empty = (d, Inr ())"
  using assms(2)
  by (auto simp: read_data_def assign_new_def FIR_init_opened [OF assms(1)] returned_Inr
      split: sum.splits option.splits if_splits)

lemma run_plan_append:
  "run_plan c (p @ q) ob = then_do (run_plan c p) (run_plan c q) ob"
  by (simp add: run_plan_def for_each_append)

lemma SOFA_read_success:
  assumes op: "opened w h c" and run: "SOFA_read h (self, w) = ((ob, w'), Inr u)"
  shows "\<exists>self2 l so r e d.
           run_plan c (root_plan req_attributes True @ root_plan other_attributes False) self =
             (self2, Inr ()) \<and>
           run_plan c (AudioObject_plan ''Listener'')
             (Map.empty(''object_string'' \<mapsto> PStr ''Listener'')) = (l, Inr ()) \<and>
           run_plan c (AudioObject_plan ''Source'')
             (Map.empty(''object_string'' \<mapsto> PStr ''Source'')) = (so, Inr ()) \<and>
           run_plan c (AudioObject_plan ''Receiver'')
             (Map.empty(''object_string'' \<mapsto> PStr ''Receiver'')) = (r, Inr ()) \<and>
           run_plan c (AudioObject_plan ''Emitter'')
             (Map.empty(''object_string'' \<mapsto> PStr ''Emitter'')) = (e, Inr ()) \<and>
           run_plan c FIR_plan Map.empty = (d, Inr ()) \<and>
           ob = self2(''listener'' \<mapsto> PObj l, ''source'' \<mapsto> PObj so,
                      ''receiver'' \<mapsto> PObj r, ''emitter'' \<mapsto> PObj e, ''data'' \<mapsto> PObj d)"
proof -
  from run obtain s1 s2 s3 s4 s5 s6 where
    1: "root_attributes h req_attributes True (self, w) = (s1, Inr ())" and
    2: "root_attributes h other_attributes False s1 = (s2, Inr ())" and
    3: "assign_new ''listener'' (AudioObject_init ''Listener'' (PyFile h)) s2 = (s3, Inr ())" and
    4: "assign_new ''source'' (AudioObject_init ''Source'' (PyFile h)) s3 = (s4, Inr ())" and
    5: "assign_new ''receiver'' (AudioObject_init ''Receiver'' (PyFile h)) s4 = (s5, Inr ())" and
    6: "assign_new ''emitter'' (AudioObject_init ''Emitter'' (PyFile h)) s5 = (s6, Inr ())" and
    7: "read_data h s6 = ((ob, w'), Inr u)"
    unfolding SOFA_read_def then_do_success by blast
  from root_attributes_success [OF op 1] obtain self1 where
    s1: "s1 = (self1, w)" and
    r1: "run_plan c (root_plan req_attributes True) self = (self1, Inr ())" by blast
  from root_attributes_success [OF op 2 [unfolded s1]] obtain self2 where
    s2: "s2 = (self2, w)" and
    r2: "run_plan c (root_plan other_attributes False) self1 = (self2, Inr ())" by blast
  from assign_AudioObject_success [OF op 3 [unfolded s2]] obtain l where
    s3: "s3 = (self2(''listener'' \<mapsto> PObj l), w)" and
    r3: "run_plan c (AudioObject_plan ''Listener'')
           (Map.empty(''object_string'' \<mapsto> PStr ''Listener'')) = (l, Inr ())" by blast
  from assign_AudioObject_success [OF op 4 [unfolded s3]] obtain so where
    s4: "s4 = (self2(''listener'' \<mapsto> PObj l, ''source'' \<mapsto> PObj so), w)" and
    r4: "run_plan c (AudioObject_plan ''Source'')
           (Map.empty(''object_string'' \<mapsto> PStr ''Source'')) = (so, Inr ())" by blast
  from assign_AudioObject_success [OF op 5 [unfolded s4]] obtain r where
    s5: "s5 = (self2(''listener'' \<mapsto> PObj l, ''source'' \<mapsto> PObj so,
                     ''receiver'' \<mapsto> PObj r), w)" and
    r5: "run_plan c (AudioObject_plan ''Receiver'')
           (Map.empty(''object_string'' \<mapsto> PStr ''Receiver'')) = (r, Inr ())" by blast
  from assign_AudioObject_success [OF op 6 [unfolded s5]] obtain e where
    s6: "s6 = (self2(''listener'' \<mapsto> PObj l, ''source'' \<mapsto> PObj so,
                     ''receiver'' \<mapsto> PObj r, ''emitter'' \<mapsto> PObj e), w)" and
    r6: "run_plan c (AudioObject_plan ''Emitter'')
           (Map.empty(''object_string'' \<mapsto> PStr ''Emitter'')) = (e, Inr ())" by blast
  from read_data_success [OF op 7 [unfolded s6]] obtain d where
    s7: "(ob, w') = (self2(''listener'' \<mapsto> PObj l, ''source'' \<mapsto> PObj so,
                     ''receiver'' \<mapsto> PObj r, ''emitter'' \<mapsto> PObj e,
                     ''data'' \<mapsto> PObj d), w)" and
    r7: "run_plan c FIR_plan Map.empty = (d, Inr ())" by blast
  from r1 r2
  have "run_plan c (root_plan req_attributes True @ root_plan other_attributes False) self =
          (self2, Inr ())"
    by (simp add: run_plan_append then_do_def)
  with r3 r4 r5 r6 r7 s7 show ?thesis by blast
qed

lemma AudioObject_plan_dests:
  "map dest_of (AudioObject_plan role) =
     [''Position'', ''PositionType'', ''PositionUnits'', ''Description'', ''View'', ''Up'']"
  by (simp add: AudioObject_plan_def required_datasets_def AudioObject_req_attributes_def
        other_datasets_def dest_of_def)

lemma FIR_plan_dests:
  "map dest_of FIR_plan = [''IR'', ''Delay'', ''SamplingRate'', ''SamplingRateUnits'']"
  by (simp add: FIR_plan_eq dest_of_def)

lemma root_plans_dests:
  "map dest_of (root_plan req_attributes True @ root_plan other_attributes False) =
     req_attributes @ other_attributes"
  by simp

lemma dest_in_dests: "(f, dest, required) \<in> set plan \<Longrightarrow> dest \<in> set (map dest_of plan)"
proof -
  assume "(f, dest, required) \<in> set plan"
  from imageI [OF this, of dest_of] show ?thesis by (simp add: dest_of_def)
qed

lemma plan_values_unset:
  assumes "run_plan c plan init = (ob, Inr u)" and "distinct (map dest_of plan)"
    and "(f, dest, required) \<in> set plan" and "init dest = None"
  shows "case container_read c f of
           Returns v \<Rightarrow> ob dest = Some v
         | Raises e \<Rightarrow> ob dest = None"
  using run_plan_values [OF assms(1-3)] assms(4) by (simp split: read_result.splits)

lemma AudioObject_values:
  assumes "run_plan c (AudioObject_plan role) (Map.empty(''object_string'' \<mapsto> PStr role)) =
             (ob, Inr u)"
    and "(f, dest, required) \<in> set (AudioObject_plan role)"
  shows "case container_read c f of
           Returns v \<Rightarrow> ob dest = Some v
         | Raises e \<Rightarrow> ob dest = None"
proof -
  from dest_in_dests [OF assms(2)] have "dest \<noteq> ''object_string''"
    unfolding AudioObject_plan_dests by auto
  then have n: "(Map.empty(''object_string'' \<mapsto> PStr role)) dest = None" by simp
  have d: "distinct (map dest_of (AudioObject_plan role))"
    unfolding AudioObject_plan_dests by simp
  show ?thesis by (rule plan_values_unset [OF assms(1) d assms(2) n])
qed

lemma FIR_values:
  assumes "run_plan c FIR_plan Map.empty = (ob, Inr u)"
    and "(f, dest, required) \<in> set FIR_plan"
  shows "case container_read c f of
           Returns v \<Rightarrow> ob dest = Some v
         | Raises e \<Rightarrow> ob dest = None"
proof -
  have d: "distinct (map dest_of FIR_plan)" unfolding FIR_plan_dests by simp
  show ?thesis by (rule plan_values_unset [OF assms(1) d assms(2)]) simp
qed

lemma root_values:
  assumes "run_plan c (root_plan req_attributes True @ root_plan other_attributes False)
             Map.empty = (ob, Inr u)"
    and "(f, dest, required) \<in>
           set (root_plan req_attributes True @ root_plan other_attributes False)"
  shows "case container_read c f of
           Returns v \<Rightarrow> ob dest = Some v
         | Raises e \<Rightarrow> ob dest = None"
proof -
  have d: "distinct (map dest_of
             (root_plan req_attributes True @ root_plan other_attributes False))"
    unfolding root_plans_dests by (simp add: req_attributes_def other_attributes_def)
  show ?thesis by (rule plan_values_unset [OF assms(1) d assms(2)]) simp
qed

lemma root_dest_not_entity:
  assumes "(f, dest, required) \<in>
             set (root_plan req_attributes True @ root_plan other_attributes False)"
  shows "dest \<notin> {''listener'', ''source'', ''receiver'', ''emitter'', ''data''}"
  using dest_in_dests [OF assms] unfolding root_plans_dests
  by (auto simp: req_attributes_def other_attributes_def)

lemma in_SOFA_bindings:
  assumes "(f, path, required) \<in> set SOFA_bindings"
  shows "(\<exists>dest. path = [dest] \<and>
            (f, dest, required) \<in>
              set (root_plan req_attributes True @ root_plan other_attributes False)) \<or>
         (\<exists>attr role dest. (attr, role) \<in> set entities \<and> path = [attr, dest] \<and>
            (f, dest, required) \<in> set (AudioObject_plan role)) \<or>
         (\<exists>dest. path = [''data'', dest] \<and> (f, dest, required) \<in> set FIR_plan)"
  using assms unfolding SOFA_bindings_def by auto

lemma in_entities:
  "(attr, role) \<in> set entities \<longleftrightarrow>
     attr = ''listener'' \<and> role = ''Listener'' \<or> attr = ''source'' \<and> role = ''Source'' \<or>
     attr = ''receiver'' \<and> role = ''Receiver'' \<or> attr = ''emitter'' \<and> role = ''Emitter''"
  by (simp add: entities_def)

lemma entities_cases:
  assumes "(attr, role) \<in> set entities"
    and "P ''listener'' ''Listener''" and "P ''source'' ''Source''"
    and "P ''receiver'' ''Receiver''" and "P ''emitter'' ''Emitter''"
  shows "P attr role"
  using assms(1) unfolding in_entities
  by (elim disjE conjE) (simp_all only: assms(2-5))

text \<open>
  Every field of the bindings, on the object a construction returns: the value the
  container holds, or nothing when the read raised.
\<close>

lemma SOFA_read_values:
  assumes op: "opened w h c" and run: "SOFA_read h (Map.empty, w) = ((ob, w'), Inr u)"
    and mem: "(f, path, required) \<in> set SOFA_bindings"
  shows "case container_read c f of
           Returns v \<Rightarrow> lookup ob path = Some v
         | Raises e \<Rightarrow> lookup ob path = None"
proof -
  from SOFA_read_success [OF op run] obtain self2 l so r e d where
    root: "run_plan c (root_plan req_attributes True @ root_plan other_attributes False)
             Map.empty = (self2, Inr ())" and
    L: "run_plan c (AudioObject_plan ''Listener'')
          (Map.empty(''object_string'' \<mapsto> PStr ''Listener'')) = (l, Inr ())" and
    S: "run_plan c (AudioObject_plan ''Source'')
          (Map.empty(''object_string'' \<mapsto> PStr ''Source'')) = (so, Inr ())" and
    R: "run_plan c (AudioObject_plan ''Receiver'')
          (Map.empty(''object_string'' \<mapsto> PStr ''Receiver'')) = (r, Inr ())" and
    E: "run_plan c (AudioObject_plan ''Emitter'')
          (Map.empty(''object_string'' \<mapsto> PStr ''Emitter'')) = (e, Inr ())" and
    D: "run_plan c FIR_plan Map.empty = (d, Inr ())" and
    ob: "ob = self2(''listener'' \<mapsto> PObj l, ''source'' \<mapsto> PObj so,
                    ''receiver'' \<mapsto> PObj r, ''emitter'' \<mapsto> PObj e, ''data'' \<mapsto> PObj d)"
    by blast
  from in_SOFA_bindings [OF mem] consider
    (root) dest where "path = [dest]"
      "(f, dest, required) \<in>
         set (root_plan req_attributes True @ root_plan other_attributes False)" |
    (entity) attr role dest where "(attr, role) \<in> set entities" "path = [attr, dest]"
      "(f, dest, required) \<in> set (AudioObject_plan role)" |
    (data) dest where "path = [''data'', dest]" "(f, dest, required) \<in> set FIR_plan"
    by blast
  then show ?thesis
  proof cases
    case root
    from root_dest_not_entity [OF root(2)] ob have "ob dest = self2 dest" by simp
    with root_values [OF \<open>run_plan c _ Map.empty = (self2, Inr ())\<close> root(2)] root(1)
    show ?thesis by (simp split: read_result.splits)
  next
    case entity
    let ?P = "\<lambda>attr role. (f, dest, required) \<in> set (AudioObject_plan role) \<longrightarrow>
                (case container_read c f of
                   Returns v \<Rightarrow> lookup ob [attr, dest] = Some v
                 | Raises e \<Rightarrow> lookup ob [attr, dest] = None)"
    have 1: "?P ''listener'' ''Listener''"
    proof
      assume m: "(f, dest, required) \<in> set (AudioObject_plan ''Listener'')"
      from ob have "lookup ob [''listener'', dest] = l dest" by simp
      with AudioObject_values [OF L m] show "case container_read c f of
          Returns v \<Rightarrow> lookup ob [''listener'', dest] = Some v
        | Raises e \<Rightarrow> lookup ob [''listener'', dest] = None"
        by (simp split: read_result.splits)
    qed
    have 2: "?P ''source'' ''Source''"
    proof
      assume m: "(f, dest, required) \<in> set (AudioObject_plan ''Source'')"
      from ob have "lookup ob [''source'', dest] = so dest" by simp
      with AudioObject_values [OF S m] show "case container_read c f of
          Returns v \<Rightarrow> lookup ob [''source'', dest] = Some v
        | Raises e \<Rightarrow> lookup ob [''source'', dest] = None"
        by (simp split: read_result.splits)
    qed
    have 3: "?P ''receiver'' ''Receiver''"
    proof
      assume m: "(f, dest, required) \<in> set (AudioObject_plan ''Receiver'')"
      from ob have "lookup ob [''receiver'', dest] = r dest" by simp
      with AudioObject_values [OF R m] show "case container_read c f of
          Returns v \<Rightarrow> lookup ob [''receiver'', dest] = Some v
        | Raises e \<Rightarrow> lookup ob [''receiver'', dest] = None"
        by (simp split: read_result.splits)
    qed
    have 4: "?P ''emitter'' ''Emitter''"
    proof
      assume m: "(f, dest, required) \<in> set (AudioObject_plan ''Emitter'')"
      from ob have "lookup ob [''emitter'', dest] = e dest" by simp
      with AudioObject_values [OF E m] show "case container_read c f of
          Returns v \<Rightarrow> lookup ob [''emitter'', dest] = Some v
        | Raises e \<Rightarrow> lookup ob [''emitter'', dest] = None"
        by (simp split: read_result.splits)
    qed
    have "?P attr role" by (rule entities_cases [where P = ?P, OF entity(1) 1 2 3 4])
    from mp [OF this entity(3)] show ?thesis unfolding entity(2) .
  next
    case data
    with ob have "lookup ob path = d dest" by simp
    with FIR_values [OF D data(2)] show ?thesis by (simp split: read_result.splits)
  qed
qed

lemma SOFA_init_values:
  assumes "reads_container sofa_file w c" and "snd (SOFA_init sofa_file w) = Inr ob"
    and "(f, path, required) \<in> set SOFA_bindings"
  shows "case container_read c f of
           Returns v \<Rightarrow> lookup ob path = Some v
         | Raises e \<Rightarrow> lookup ob path = None"
proof -
  from SOFA_init_reads [OF assms(1)] assms(2) obtain h w1 where op: "opened w1 h c"
    and "returned (fst (fst (SOFA_read h (Map.empty, w1))),
                   snd (SOFA_read h (Map.empty, w1))) = Inr ob" by auto
  then have "SOFA_read h (Map.empty, w1) =
               ((ob, snd (fst (SOFA_read h (Map.empty, w1)))), Inr ())"
    by (cases "SOFA_read h (Map.empty, w1)") (auto simp: returned_Inr)
  from SOFA_read_values [OF op this assms(3)] show ?thesis .
qed

lemma well_formed_succeeds:
  assumes "reads_container sofa_file w c" and "well_formed c"
  shows "\<exists>ob. snd (SOFA_init sofa_file w) = Inr ob"
  using SOFA_init_succeeds_iff [OF assms(1)] well_formed_SOFA_result [OF assms(2)] by simp

subsection \<open>An absent optional field\<close>

lemma well_formed_remove_optional:
  assumes "well_formed c" and "f \<notin> set required_fields"
  shows "well_formed (remove_field f c)"
proof -
  have "Attribute ''/'' ''DataType'' \<in> set required_fields"
    unfolding required_fields_mem
    by (rule exI [of _ "''DataType''"]) (simp add: DataType_in_SOFA_plan)
  with assms(2) have ne: "Attribute ''/'' ''DataType'' \<noteq> f" by blast
  have "present (remove_field f c) g" if "g \<in> set required_fields" for g
  proof -
    from that assms(2) have "g \<noteq> f" by blast
    with well_formed_present [OF assms(1) that] show ?thesis
      by (simp add: present_remove_other)
  qed
  moreover have "\<not> broken (remove_field f c) g" if "g \<in> set optional_fields" for g
    using well_formed_not_broken [OF assms(1) that] broken_remove_field [of f c g] by blast
  moreover from container_read_remove_other [OF ne, of c] assms(1)
  have "node_attr (remove_field f c) ''/'' ''DataType'' = Returns (PStr ''FIR'')"
    by (simp add: well_formed_def)
  ultimately show ?thesis by (simp add: well_formed_def list_all_iff)
qed

text \<open>
  C4. On a container that is well formed (every required field present, no optional
  field broken, data type \<^verbatim>\<open>'FIR'\<close>), the construction returns an object; for each
  optional field (the six optional root attributes, and \<^verbatim>\<open>Description\<close>, \<^verbatim>\<open>View\<close> and
  \<^verbatim>\<open>Up\<close> of the four entities) the destination attribute is not set when the field is
  absent, and holds the container's value when the field is present: an unset attribute
  differs from every value, the empty string and zero included.
\<close>

theorem absent_optional_field_unset:
  assumes "reads_container sofa_file w c" and "well_formed c"
    and "(f, path, False) \<in> set SOFA_bindings"
  shows "\<exists>ob. snd (SOFA_init sofa_file w) = Inr ob \<and>
              (absent c f \<longrightarrow> lookup ob path = None) \<and>
              (\<forall>v. container_read c f = Returns v \<longrightarrow> lookup ob path = Some v)"
proof -
  from well_formed_succeeds [OF assms(1,2)] obtain ob where
    ob: "snd (SOFA_init sofa_file w) = Inr ob" by blast
  from SOFA_init_values [OF assms(1) ob assms(3)]
  have "(absent c f \<longrightarrow> lookup ob path = None) \<and>
        (\<forall>v. container_read c f = Returns v \<longrightarrow> lookup ob path = Some v)"
    by (auto simp: absent_def split: read_result.splits)
  with ob show ?thesis by blast
qed

lemma Comment_binding:
  "(Attribute ''/'' ''Comment'', [''Comment''], False) \<in> set SOFA_bindings"
  by (simp add: SOFA_bindings_def root_plan_def other_attributes_def)

lemma ListenerView_binding:
  "(Dataset ''/ListenerView'', [''listener'', ''View''], False) \<in> set SOFA_bindings"
  by (simp add: SOFA_bindings_def entities_def AudioObject_plan_def other_datasets_def)

lemma Comment_not_required: "Attribute ''/'' ''Comment'' \<notin> set required_fields"
  by (simp add: required_fields_plans SOFA_plan_eq FIR_plan_eq)

lemma ListenerView_not_required: "Dataset ''/ListenerView'' \<notin> set required_fields"
  by (simp add: required_fields_plans SOFA_plan_eq FIR_plan_eq)

theorem absent_optional_field_unset_witness:
  "reads_container (PyFile 0)
     (world_with (remove_field (Attribute ''/'' ''Comment'') full_container))
     (remove_field (Attribute ''/'' ''Comment'') full_container) \<and>
   well_formed (remove_field (Attribute ''/'' ''Comment'') full_container) \<and>
   (Attribute ''/'' ''Comment'', [''Comment''], False) \<in> set SOFA_bindings \<and>
   absent (remove_field (Attribute ''/'' ''Comment'') full_container)
     (Attribute ''/'' ''Comment'') \<and>
   (\<exists>ob. snd (SOFA_init (PyFile 0)
            (world_with (remove_field (Attribute ''/'' ''Comment'') full_container))) = Inr ob \<and>
         lookup ob [''Comment''] = None) \<and>
   reads_container (PyFile 0)
     (world_with (remove_field (Dataset ''/ListenerView'') full_container))
     (remove_field (Dataset ''/ListenerView'') full_container) \<and>
   well_formed (remove_field (Dataset ''/ListenerView'') full_container) \<and>
   (Dataset ''/ListenerView'', [''listener'', ''View''], False) \<in> set SOFA_bindings \<and>
   absent (remove_field (Dataset ''/ListenerView'') full_container)
     (Dataset ''/ListenerView'') \<and>
   (\<exists>ob. snd (SOFA_init (PyFile 0)
            (world_with (remove_field (Dataset ''/ListenerView'') full_container))) = Inr ob \<and>
         lookup ob [''listener'', ''View''] = None)"
proof -
  let ?c = "remove_field (Attribute ''/'' ''Comment'') full_container"
  let ?d = "remove_field (Dataset ''/ListenerView'') full_container"
  have wc: "well_formed ?c"
    by (rule well_formed_remove_optional [OF well_formed_full_container Comment_not_required])
  have wd: "well_formed ?d"
    by (rule well_formed_remove_optional
        [OF well_formed_full_container ListenerView_not_required])
  have ac: "absent ?c (Attribute ''/'' ''Comment'')" by (rule absent_remove_field)
  have ad: "absent ?d (Dataset ''/ListenerView'')" by (rule absent_remove_field)
  from absent_optional_field_unset [OF reads_world_with wc Comment_binding] ac
  have 1: "\<exists>ob. snd (SOFA_init (PyFile 0) (world_with ?c)) = Inr ob \<and>
             lookup ob [''Comment''] = None" by blast
  from absent_optional_field_unset [OF reads_world_with wd ListenerView_binding] ad
  have 2: "\<exists>ob. snd (SOFA_init (PyFile 0) (world_with ?d)) = Inr ob \<and>
             lookup ob [''listener'', ''View''] = None" by blast
  from 1 2 wc wd ac ad Comment_binding ListenerView_binding
    reads_world_with [of ?c] reads_world_with [of ?d]
  show ?thesis by blast
qed

subsection \<open>The length of an \<^verbatim>\<open>AudioObject\<close>\<close>

lemma add_data_success_opened:
  "add_data w ob h node True name = (ob', Inr n) \<Longrightarrow> opened w h (contents (heap w ! h))"
  by (auto simp: add_data_def get_node_read_def opened_def
      split: read_result.splits if_splits)

lemma AudioObject_read_success_opened:
  assumes "AudioObject_read w h role self = (ob, Inr u)"
  shows "opened w h (contents (heap w ! h))"
proof -
  from assms obtain s1 where
    "for_each required_datasets
       (\<lambda>param ob. add_data w ob h (''/'' @ role @ param) True (Some param)) self =
       (s1, Inr ())"
    unfolding AudioObject_read_def then_do_success by blast
  then obtain n where "add_data w self h (''/'' @ role @ ''Position'') True (Some ''Position'') =
                         (s1, Inr n)"
    by (auto simp: required_datasets_def split: prod.splits sum.splits)
  then show ?thesis by (rule add_data_success_opened)
qed

lemma AudioObject_read_Position:
  assumes "AudioObject_read w h role self = (ob, Inr u)"
  shows "\<exists>position. ob ''Position'' = Some position"
proof -
  let ?c = "contents (heap w ! h)"
  from AudioObject_read_success_opened [OF assms] have op: "opened w h ?c" .
  from assms have run: "run_plan ?c (AudioObject_plan role) self = (ob, Inr u)"
    by (simp add: AudioObject_read_plan [OF op])
  have d: "distinct (map dest_of (AudioObject_plan role))"
    unfolding AudioObject_plan_dests by simp
  have m: "(Dataset (''/'' @ role @ ''Position''), ''Position'', True) \<in>
             set (AudioObject_plan role)"
    by (simp add: AudioObject_plan_def required_datasets_def)
  from snd_run_plan [of ?c "AudioObject_plan role" self] run
  have "plan_result ?c (AudioObject_plan role) = Inr ()" by simp
  then have "list_all (\<lambda>(f, dest, required). present ?c f \<or> (\<not> required \<and> absent ?c f))
               (AudioObject_plan role)"
    by (simp add: plan_passes_iff)
  with m have "present ?c (Dataset (''/'' @ role @ ''Position''))"
    unfolding list_all_iff by fastforce
  with run_plan_values [OF run d m] show ?thesis
    by (auto simp: present_def split: read_result.splits)
qed

lemma AudioObject_init_Position:
  assumes "AudioObject_init role sofa_file w = (w', Inr ob)" and "truthy sofa_file"
  shows "\<exists>position. ob ''Position'' = Some position"
proof -
  let ?self = "Map.empty(''object_string'' \<mapsto> PStr role)"
  from assms obtain u where
    ff: "AudioObject_from_file ?self sofa_file w = ((ob, w'), Inr u)"
    by (auto simp: AudioObject_init_def Let_def split: prod.splits sum.splits)
  then obtain w1 h where "AudioObject_read w1 h role ?self = (ob, Inr ())"
    by (auto simp: AudioObject_from_file_def split: prod.splits sum.splits)
  then show ?thesis by (rule AudioObject_read_Position)
qed

text \<open>
  C8. For every \<^verbatim>\<open>AudioObject\<close> a constructor call returns: when the call was given a
  file (a truthy argument) the attribute \<^verbatim>\<open>Position\<close> is bound; whenever \<^verbatim>\<open>Position\<close> is
  bound, \<^verbatim>\<open>__len__\<close> is \<^verbatim>\<open>len\<close> of it, which for an array is its outer extent (the number
  of its rows).
\<close>

theorem length_is_outer_extent_of_position:
  assumes "AudioObject_init role sofa_file w = (w', Inr ob)"
  shows "(truthy sofa_file \<longrightarrow> (\<exists>position. ob ''Position'' = Some position)) \<and>
         (\<forall>position. ob ''Position'' = Some position \<longrightarrow>
            AudioObject_len ob = py_len position) \<and>
         (\<forall>rows. ob ''Position'' = Some (PArr rows) \<longrightarrow>
            AudioObject_len ob = Inr (length rows))"
  using AudioObject_init_Position [OF assms] by (simp add: AudioObject_len_def)

lemma AudioObject_init_example:
  "AudioObject_init ''Listener'' (PyFile 0) (world_with full_container) =
     (world_with full_container, Inr example_listener)"
  by (simp add: AudioObject_init_def AudioObject_from_file_def AudioObject_read_def
        then_do_def required_datasets_def AudioObject_req_attributes_def other_datasets_def
        add_data_def add_attribute_def get_node_read_def get_node_attr_def
        world_with_def full_container_def example_listener_def)

theorem length_is_outer_extent_of_position_witness:
  "AudioObject_init ''Listener'' (PyFile 0) (world_with full_container) =
     (world_with full_container, Inr example_listener) \<and>
   truthy (PyFile 0) \<and>
   example_listener ''Position'' = Some (PArr [PNum 1, PNum 2, PNum 3]) \<and>
   AudioObject_len example_listener = py_len (PArr [PNum 1, PNum 2, PNum 3]) \<and>
   AudioObject_len example_listener = Inr 3"
proof -
  have p: "example_listener ''Position'' = Some (PArr [PNum 1, PNum 2, PNum 3])"
    by (simp add: example_listener_def)
  from length_is_outer_extent_of_position [OF AudioObject_init_example] p
  have "AudioObject_len example_listener = py_len (PArr [PNum 1, PNum 2, PNum 3])"
    and "AudioObject_len example_listener = Inr (length [PNum 1, PNum 2, PNum 3])"
    by blast+
  with AudioObject_init_example p show ?thesis by simp
qed

subsection \<open>All or nothing\<close>

lemma closed_handle_fails:
  assumes "\<not> (h < length (heap w) \<and> isopen (heap w ! h))"
  shows "snd (SOFA_init (PyFile h) w) = Inl (OtherError ''ClosedFileError'')"
proof -
  from assms have "get_node_attr w h ''/'' ''Conventions'' = Raises (OtherError ''ClosedFileError'')"
    by (auto simp: get_node_attr_def)
  then have "snd (root_attributes h req_attributes True (Map.empty, w)) =
               Inl (OtherError ''ClosedFileError'')"
    by (simp add: root_attributes_def req_attributes_def add_attribute_def)
  then have "snd (SOFA_read h (Map.empty, w)) = Inl (OtherError ''ClosedFileError'')"
    by (simp add: SOFA_read_def snd_then_do)
  then show ?thesis by (simp add: SOFA_init_File returned_def split: sum.splits)
qed

lemma SOFA_init_other: "SOFA_init (PyOther True) w = (w, Inl AssertionError)"
  by (simp add: SOFA_init_def SOFA_from_file_def resolve_handle_def)

lemma success_reads_container:
  assumes "truthy sofa_file" and "snd (SOFA_init sofa_file w) = Inr ob"
  shows "\<exists>c. reads_container sofa_file w c"
proof (cases sofa_file)
  case PyNone
  with assms(1) show ?thesis by simp
next
  case (PyStr path)
  with assms(1) have p: "path \<noteq> []" by simp
  show ?thesis
  proof (cases "files w path")
    case None
    from SOFA_init_no_file [OF p None] assms(2) PyStr show ?thesis by simp
  next
    case (Some c)
    with p PyStr show ?thesis by simp
  qed
next
  case (PyFile h)
  show ?thesis
  proof (cases "h < length (heap w) \<and> isopen (heap w ! h)")
    case True
    with PyFile show ?thesis by (simp add: opened_def)
  next
    case False
    from closed_handle_fails [OF False] assms(2) PyFile show ?thesis by simp
  qed
next
  case (PyOther b)
  with assms(1) have "b" by simp
  with SOFA_init_other [of w] assms(2) PyOther show ?thesis by simp
qed

lemma required_binding_field:
  "(f, path, True) \<in> set SOFA_bindings \<Longrightarrow> f \<in> set required_fields"
proof -
  assume "(f, path, True) \<in> set SOFA_bindings"
  then have "(f, path, True) \<in> set (filter (\<lambda>(f, path, required). required) SOFA_bindings)"
    by simp
  from imageI [OF this, of fst] show ?thesis by (simp add: required_fields_def)
qed



text \<open>
  The object on which a failing \<^verbatim>\<open>from_file\<close> ran is the one the constructor was
  filling, and the exception leaves \<^verbatim>\<open>__init__\<close> before any caller holds it. The method
  itself fills its object in place: called on an object the caller already holds, for a
  container without the attribute \<^verbatim>\<open>Version\<close>, it raises and leaves on that object the
  attribute \<^verbatim>\<open>Conventions\<close>, bound before the failure.
\<close>

lemma from_file_fills_in_place:
  "snd (SOFA_from_file Map.empty (PyFile 0)
          (world_with (remove_field (Attribute ''/'' ''Version'') full_container))) =
     Inl (Exception ''Required Attribute Version not found!'') \<and>
   fst (fst (SOFA_from_file Map.empty (PyFile 0)
          (world_with (remove_field (Attribute ''/'' ''Version'') full_container))))
     ''Conventions'' = Some (PStr ''x'')"
  by (simp add: SOFA_from_file_def SOFA_read_def then_do_def root_attributes_def
        req_attributes_def add_attribute_def get_node_attr_def world_with_def
        full_container_def)

end
